theory Spec2Isabelle
  imports Main
begin

section \<open>Strings and paths\<close>

text \<open>
  The package \<^verbatim>\<open>buildenv\<close> computes its paths with Go's \<^verbatim>\<open>strings\<close>, \<^verbatim>\<open>path\<close> and
  \<^verbatim>\<open>path/filepath\<close> (Unix). A Go string is a byte sequence, here a \<^typ>\<open>string\<close>.
\<close>

text \<open>\<^verbatim>\<open>strings.Split(s, sep)\<close> for a one-byte separator: the pieces between the
  separators, always at least one piece (\<^verbatim>\<open>Split("", sep)\<close> is \<^verbatim>\<open>[""]\<close>).\<close>

fun Split :: "string \<Rightarrow> char \<Rightarrow> string list" where
  "Split [] sep = [[]]"
| "Split (c # cs) sep =
     (if c = sep then [] # Split cs sep
      else (case Split cs sep of [] \<Rightarrow> [[c]] | x # xs \<Rightarrow> (c # x) # xs))"

text \<open>\<^verbatim>\<open>strings.Join(elems, sep)\<close>.\<close>

fun strings_Join :: "string list \<Rightarrow> string \<Rightarrow> string" where
  "strings_Join [] sep = []"
| "strings_Join [x] sep = x"
| "strings_Join (x # y # ys) sep = x @ sep @ strings_Join (y # ys) sep"

text \<open>\<^verbatim>\<open>strings.HasPrefix(s, prefix)\<close>.\<close>

fun HasPrefix :: "string \<Rightarrow> string \<Rightarrow> bool" where
  "HasPrefix s [] = True"
| "HasPrefix [] (p # ps) = False"
| "HasPrefix (c # cs) (p # ps) = (c = p \<and> HasPrefix cs ps)"

text \<open>\<^verbatim>\<open>strings.Replace(s, old, new, n)\<close> for a non-empty \<^verbatim>\<open>old\<close>: the first \<^verbatim>\<open>n\<close>
  non-overlapping occurrences are replaced, all of them when \<^verbatim>\<open>n\<close> is negative.\<close>

function Replace :: "string \<Rightarrow> string \<Rightarrow> string \<Rightarrow> int \<Rightarrow> string" where
  "Replace [] old new n = []"
| "Replace (c # cs) old new n =
     (if n = 0 \<or> old = [] then c # cs
      else if HasPrefix (c # cs) old
        then new @ Replace (drop (length old) (c # cs)) old new (n - 1)
      else c # Replace cs old new n)"
  by pat_completeness auto
termination
  by (relation "measure (\<lambda>(s, old, new, n). length s)") auto

text \<open>\<^verbatim>\<open>path.Base\<close> and \<^verbatim>\<open>filepath.Base\<close> (the same function on Unix): the last element
  of the path, after the trailing slashes are removed; \<^verbatim>\<open>"."\<close> for the empty path and
  \<^verbatim>\<open>"/"\<close> for a path of slashes only.\<close>

definition Base :: "string \<Rightarrow> string" where
  "Base p =
     (if p = [] then ''.''
      else let q = rev (dropWhile (\<lambda>c. c = CHR ''/'') (rev p));
               r = rev (takeWhile (\<lambda>c. c \<noteq> CHR ''/'') (rev q))
           in if r = [] then ''/'' else r)"

text \<open>\<^verbatim>\<open>filepath.Clean\<close>: empty and \<^verbatim>\<open>.\<close> elements are dropped, an inner \<^verbatim>\<open>..\<close> removes the
  element before it, a \<^verbatim>\<open>..\<close> at the root is dropped, and the empty result is \<^verbatim>\<open>"."\<close>.
  \<open>clean_step\<close> handles one element; the elements kept so far are held last first.\<close>

fun clean_step :: "bool \<Rightarrow> string list \<Rightarrow> string \<Rightarrow> string list" where
  "clean_step rooted st c =
     (if c = [] \<or> c = ''.'' then st
      else if c = ''..'' then
        (case st of
           [] \<Rightarrow> if rooted then [] else [''..'']
         | t # ts \<Rightarrow> if t = ''..'' then ''..'' # st else ts)
      else c # st)"

definition Clean :: "string \<Rightarrow> string" where
  "Clean p =
     (let rooted = HasPrefix p ''/'';
          st = foldl (clean_step rooted) [] (Split p (CHR ''/''));
          body = strings_Join (rev st) ''/''
      in if rooted then CHR ''/'' # body else if st = [] then ''.'' else body)"

text \<open>\<^verbatim>\<open>filepath.Join(elem...)\<close>: the elements from the first non-empty one on are joined
  with slashes and the result is cleaned; the empty string when every element is empty.\<close>

definition Join :: "string list \<Rightarrow> string" where
  "Join elem =
     (case dropWhile (\<lambda>e. e = []) elem of
        [] \<Rightarrow> []
      | e # es \<Rightarrow> Clean (strings_Join (e # es) ''/''))"

text \<open>\<^verbatim>\<open>filepath.Dir\<close>: the cleaned path up to the last slash.\<close>

definition Dir :: "string \<Rightarrow> string" where
  "Dir p = Clean (rev (dropWhile (\<lambda>c. c \<noteq> CHR ''/'') (rev p)))"


section \<open>The operating system\<close>

text \<open>
  The package works on the file system and through child processes. The file system is a
  finite table from cleaned paths to nodes; a regular file carries its content. The root
  and the current directory always exist.
\<close>

datatype node = DirNode | FileNode string

type_synonym filesystem = "(string \<times> node) list"

text \<open>\<^verbatim>\<open>exec.Cmd\<close> as built by \<^verbatim>\<open>exec.Command(name, arg...)\<close>, and \<^verbatim>\<open>advexec.Advcmd\<close>.\<close>

record Cmd =
  Path :: string
  Args :: "string list"
  CmdDir :: string

definition Command :: "string \<Rightarrow> string list \<Rightarrow> Cmd" where
  "Command name arg = \<lparr>Path = name, Args = name # arg, CmdDir = []\<rparr>"

record Advcmd =
  BinPath :: string
  CmdArgs :: "string list"
  ExecDir :: string
  ManifestName :: string
  ManifestDir :: string
  CmdEnv :: "string list"

datatype proc = ExecCmd Cmd | AdvExec Advcmd

text \<open>Every call that leaves the package is recorded, in order: the probes, the changes of
  the file system, the searches of \<^verbatim>\<open>PATH\<close> and the processes that were run.\<close>

datatype event =
    EStat string
  | EMkdir string
  | EMkdirAll string
  | ECopyFile string string
  | ERemove string
  | EReadDir string
  | ELookPath string
  | ERun proc

record world =
  fs :: filesystem
  events :: "event list"

text \<open>A call returns a value or ends in a run-time panic.\<close>

datatype 'a go = Returns 'a | Panics

text \<open>
  What the package does not decide is a parameter of the model: the classifiers of
  \<^verbatim>\<open>go_util\<close> (\<^verbatim>\<open>DetectURLType\<close>, \<^verbatim>\<open>DetectTarballFormat\<close>, \<^verbatim>\<open>GetTarArgs\<close>, pure functions of
  their argument), the search of \<^verbatim>\<open>exec.LookPath\<close>, what a child process does to the file
  system and whether it exits with success, and the failures of the operating system that
  the table does not explain (permissions, a full disk). \<^verbatim>\<open>util.DetectURLType\<close> slices
  its argument before it looks at it, so it can panic: it returns a kind or panics.
\<close>

record sys =
  DetectURLType :: "string \<Rightarrow> string go"
  DetectTarballFormat :: "string \<Rightarrow> string"
  GetTarArgs :: "string \<Rightarrow> string"
  path_search :: "filesystem \<Rightarrow> string \<Rightarrow> string option"
  proc_effect :: "proc \<Rightarrow> filesystem \<Rightarrow> bool \<times> filesystem"
  os_fault :: "event \<Rightarrow> filesystem \<Rightarrow> bool"

text \<open>The URL kinds of \<^verbatim>\<open>go_util\<close>: \<^verbatim>\<open>util.FileURL\<close>, \<^verbatim>\<open>util.HttpURL\<close>, \<^verbatim>\<open>util.GitURL\<close>.\<close>

definition FileURL :: string where "FileURL = ''file''"
definition HttpURL :: string where "HttpURL = ''http''"
definition GitURL :: string where "GitURL = ''git''"

definition log :: "world \<Rightarrow> event \<Rightarrow> world" where
  "log w e = w\<lparr>events := events w @ [e]\<rparr>"

text \<open>\<^verbatim>\<open>os.Stat\<close>: the node at a path, none at the empty path.\<close>

definition stat :: "filesystem \<Rightarrow> string \<Rightarrow> node option" where
  "stat t p =
     (if p = [] then None
      else let k = Clean p
           in if k = ''/'' \<or> k = ''.'' then Some DirNode else map_of t k)"

text \<open>Byte order on names, and the sorted listing \<^verbatim>\<open>ioutil.ReadDir\<close> returns.\<close>

fun name_le :: "string \<Rightarrow> string \<Rightarrow> bool" where
  "name_le [] ys = True"
| "name_le (x # xs) [] = False"
| "name_le (x # xs) (y # ys) =
     (if x = y then name_le xs ys else (of_char x :: nat) < of_char y)"

fun insert_name :: "string \<Rightarrow> string list \<Rightarrow> string list" where
  "insert_name x [] = [x]"
| "insert_name x (y # ys) = (if name_le x y then x # y # ys else y # insert_name x ys)"

fun sort_names :: "string list \<Rightarrow> string list" where
  "sort_names [] = []"
| "sort_names (x # xs) = insert_name x (sort_names xs)"

definition children :: "filesystem \<Rightarrow> string \<Rightarrow> string list" where
  "children t d =
     sort_names (remdups (map Base
       (filter (\<lambda>k. k \<noteq> Clean d \<and> Dir k = Clean d) (map fst t))))"

text \<open>\<^verbatim>\<open>os.Mkdir\<close>: the path must be new and its parent a directory.\<close>

definition Mkdir_fs :: "sys \<Rightarrow> filesystem \<Rightarrow> string \<Rightarrow> bool \<times> filesystem" where
  "Mkdir_fs s t p =
     (if os_fault s (EMkdir p) t \<or> p = [] \<or> stat t p \<noteq> None
         \<or> stat t (Dir (Clean p)) \<noteq> Some DirNode
      then (False, t)
      else (True, (Clean p, DirNode) # t))"

text \<open>\<^verbatim>\<open>os.MkdirAll\<close>, as the Go library writes it: success at once on a directory, an
  error on a file; otherwise the parent (the path before its last element) is made first,
  then \<^verbatim>\<open>Mkdir\<close> is called, and its failure is forgiven when the directory is there.\<close>

function MkdirAll_fs :: "sys \<Rightarrow> filesystem \<Rightarrow> string \<Rightarrow> bool \<times> filesystem" where
  "MkdirAll_fs s t path =
     (if stat t path = Some DirNode then (True, t)
      else if stat t path \<noteq> None then (False, t)
      else
        let pj = rev (dropWhile (\<lambda>c. c \<noteq> CHR ''/'')
                   (dropWhile (\<lambda>c. c = CHR ''/'') (rev path)));
            r = (if 1 < length pj then MkdirAll_fs s t (butlast pj) else (True, t))
        in if \<not> fst r then (False, snd r)
           else let m = Mkdir_fs s (snd r) path
                in if fst m then (True, snd m)
                   else (stat (snd m) path = Some DirNode, snd m))"
  by pat_completeness auto
termination
proof (relation "measure (\<lambda>(s, t, path). length path)")
  show "wf (measure (\<lambda>(s, t, path). length path))" by simp
next
  fix s :: sys and t :: filesystem and path pj :: string
  assume pj: "pj = rev (dropWhile (\<lambda>c. c \<noteq> CHR ''/'')
                   (dropWhile (\<lambda>c. c = CHR ''/'') (rev path)))"
    and len: "1 < length pj"
  have "length pj \<le> length (dropWhile (\<lambda>c. c = CHR ''/'') (rev path))"
    unfolding pj by (simp add: length_dropWhile_le)
  also have "\<dots> \<le> length path"
    using length_dropWhile_le [of "\<lambda>c. c = CHR ''/''" "rev path"] by simp
  finally have "length (butlast pj) < length path" using len by simp
  then show "((s, t, butlast pj), (s, t, path)) \<in> measure (\<lambda>(s, t, path). length path)"
    by simp
qed

declare MkdirAll_fs.simps [simp del]

text \<open>\<^verbatim>\<open>os.Remove\<close>: a file or an empty directory that is in the table.\<close>

definition Remove_fs :: "sys \<Rightarrow> filesystem \<Rightarrow> string \<Rightarrow> bool \<times> filesystem" where
  "Remove_fs s t p =
     (if os_fault s (ERemove p) t \<or> p = [] \<or> map_of t (Clean p) = None
         \<or> children t p \<noteq> []
      then (False, t)
      else (True, filter (\<lambda>e. fst e \<noteq> Clean p) t))"

text \<open>\<^verbatim>\<open>ioutil.ReadDir\<close>: the names in a directory, sorted; none when it cannot be read.\<close>

definition ReadDir_fs :: "sys \<Rightarrow> filesystem \<Rightarrow> string \<Rightarrow> string list option" where
  "ReadDir_fs s t d =
     (if os_fault s (EReadDir d) t \<or> stat t d \<noteq> Some DirNode then None
      else Some (children t d))"

text \<open>\<^verbatim>\<open>util.CopyFile\<close>: the source is a regular file, the target is written in an existing
  directory and takes the source's content.\<close>

definition CopyFile_fs :: "sys \<Rightarrow> filesystem \<Rightarrow> string \<Rightarrow> string \<Rightarrow> bool \<times> filesystem" where
  "CopyFile_fs s t src dst =
     (case stat t src of
        Some (FileNode c) \<Rightarrow>
          if os_fault s (ECopyFile src dst) t \<or> dst = [] \<or> stat t dst = Some DirNode
             \<or> stat t (Dir (Clean dst)) \<noteq> Some DirNode
          then (False, t)
          else (True, (Clean dst, FileNode c) # t)
      | _ \<Rightarrow> (False, t))"

subsection \<open>The calls, recorded\<close>

text \<open>The probes of \<^verbatim>\<open>go_util\<close>: \<^verbatim>\<open>util.PathExists\<close> holds of any node, \<^verbatim>\<open>util.IsDir\<close>
  of a directory and \<^verbatim>\<open>util.FileExists\<close> of a node that is not a directory.
  \<^verbatim>\<open>util.FileExists\<close> screens only the absence of the path before it reads the file
  information: where \<^verbatim>\<open>os.Stat\<close> fails for another reason, as it does below a regular
  file, it panics. Each call below answers from the file system of the world and adds its
  event to the record. What the package writes to its log and to the standard output is not
  part of the model.\<close>

text \<open>The proper ancestors of a cleaned path, the root apart: its prefixes that end before
  a slash. \<open>under_file\<close> holds of a path with a regular file among them.\<close>

fun prefixes_before_slash :: "string \<Rightarrow> string \<Rightarrow> string list" where
  "prefixes_before_slash acc [] = []"
| "prefixes_before_slash acc (c # cs) =
     (if c = CHR ''/'' \<and> acc \<noteq> [] then [rev acc] else [])
       @ prefixes_before_slash (c # acc) cs"

definition under_file :: "filesystem \<Rightarrow> string \<Rightarrow> bool" where
  "under_file t p =
     list_ex (\<lambda>a. case map_of t a of Some (FileNode c) \<Rightarrow> True | _ \<Rightarrow> False)
       (prefixes_before_slash [] (Clean p))"

definition PathExists :: "world \<Rightarrow> string \<Rightarrow> bool \<times> world" where
  "PathExists w p = (stat (fs w) p \<noteq> None, log w (EStat p))"

definition IsDir :: "world \<Rightarrow> string \<Rightarrow> bool \<times> world" where
  "IsDir w p = (stat (fs w) p = Some DirNode, log w (EStat p))"

definition FileExists :: "world \<Rightarrow> string \<Rightarrow> bool go \<times> world" where
  "FileExists w p =
     ((case stat (fs w) p of
         Some (FileNode c) \<Rightarrow> Returns True
       | Some DirNode \<Rightarrow> Returns False
       | None \<Rightarrow> if under_file (fs w) p then Panics else Returns False),
      log w (EStat p))"

definition Mkdir :: "sys \<Rightarrow> world \<Rightarrow> string \<Rightarrow> bool \<times> world" where
  "Mkdir s w p =
     (let r = Mkdir_fs s (fs w) p in (fst r, (log w (EMkdir p))\<lparr>fs := snd r\<rparr>))"

definition MkdirAll :: "sys \<Rightarrow> world \<Rightarrow> string \<Rightarrow> bool \<times> world" where
  "MkdirAll s w p =
     (let r = MkdirAll_fs s (fs w) p in (fst r, (log w (EMkdirAll p))\<lparr>fs := snd r\<rparr>))"

definition Remove :: "sys \<Rightarrow> world \<Rightarrow> string \<Rightarrow> bool \<times> world" where
  "Remove s w p =
     (let r = Remove_fs s (fs w) p in (fst r, (log w (ERemove p))\<lparr>fs := snd r\<rparr>))"

definition ReadDir :: "sys \<Rightarrow> world \<Rightarrow> string \<Rightarrow> string list option \<times> world" where
  "ReadDir s w d = (ReadDir_fs s (fs w) d, log w (EReadDir d))"

definition CopyFile :: "sys \<Rightarrow> world \<Rightarrow> string \<Rightarrow> string \<Rightarrow> bool \<times> world" where
  "CopyFile s w src dst =
     (let r = CopyFile_fs s (fs w) src dst
      in (fst r, (log w (ECopyFile src dst))\<lparr>fs := snd r\<rparr>))"

definition LookPath :: "sys \<Rightarrow> world \<Rightarrow> string \<Rightarrow> string option \<times> world" where
  "LookPath s w bin = (path_search s (fs w) bin, log w (ELookPath bin))"

definition Run :: "sys \<Rightarrow> world \<Rightarrow> proc \<Rightarrow> bool \<times> world" where
  "Run s w pr =
     (let r = proc_effect s pr (fs w) in (fst r, (log w (ERun pr))\<lparr>fs := snd r\<rparr>))"


section \<open>The build environment\<close>

text \<open>\<^verbatim>\<open>buildenv.Info\<close>, and the fields of the package descriptor \<^verbatim>\<open>app.Info\<close> that the
  build environment reads and writes.\<close>

record Info =
  SrcPath :: string
  SrcDir :: string
  ScratchDir :: string
  InstallDir :: string
  BuildDir :: string
  Env :: "string list"

record app_Info =
  Name :: string
  URL :: string
  Tarball :: string
  InstallCmd :: string

text \<open>The errors, one constructor for each message the package formats; an error that
  wraps the error of a callee carries it. \<open>NotAvailable\<close> names the binary that
  \<^verbatim>\<open>exec.LookPath\<close> did not find, \<open>Inconsistent\<close> carries the number of entries found,
  \<open>OsError\<close> is the error of \<^verbatim>\<open>os.Mkdir\<close> or \<^verbatim>\<open>os.MkdirAll\<close> returned as it is, and
  \<open>FailedToCreate\<close> carries the word of the message of \<^verbatim>\<open>Init\<close> (\<^verbatim>\<open>scratch\<close> or
  \<^verbatim>\<open>build\<close>; the message for \<^verbatim>\<open>InstallDir\<close> says \<^verbatim>\<open>build\<close> too) and the path. A method ends with \<^verbatim>\<open>nil\<close>, with an error, or
  in a run-time panic (a slice or an index out of range). The methods have pointer
  receivers, so the fields written before an error stay written: every model returns the
  environment, the descriptor and the world as they are when it ends.\<close>

datatype error =
    InvalidParameters
  | UndetectedType
  | UndetectedURLType
  | OsError
  | NotAvailable string
  | CommandFailed
  | CannotCopyFile
  | UnableToCopy
  | FailedToDelete
  | FailedToReadDir
  | Inconsistent nat
  | UnsupportedFormat
  | ImpossibleToCopy error
  | ImpossibleToDownload error
  | ImpossibleToGet error
  | FailedToCreate string string
  | FailedToInstall

datatype outcome = Ok | Err error | Panic

fun wrap :: "(error \<Rightarrow> error) \<Rightarrow> outcome \<times> 'a \<Rightarrow> outcome \<times> 'a" where
  "wrap f (Ok, r) = (Ok, r)"
| "wrap f (Err e, r) = (Err (f e), r)"
| "wrap f (Panic, r) = (Panic, r)"

text \<open>The idiom \<^verbatim>\<open>if !util.PathExists(d) { err := os.Mkdir(d, mode) ... }\<close> and the same
  with \<^verbatim>\<open>os.MkdirAll\<close>: the flag is whether the method goes on.\<close>

definition ensureMkdir :: "sys \<Rightarrow> world \<Rightarrow> string \<Rightarrow> bool \<times> world" where
  "ensureMkdir s w d =
     (let (ex, w1) = PathExists w d in if ex then (True, w1) else Mkdir s w1 d)"

definition ensureMkdirAll :: "sys \<Rightarrow> world \<Rightarrow> string \<Rightarrow> bool \<times> world" where
  "ensureMkdirAll s w d =
     (let (ex, w1) = PathExists w d in if ex then (True, w1) else MkdirAll s w1 d)"

subsection \<open>\<^verbatim>\<open>src/pkg/buildenv/buildenv.go\<close>\<close>

text \<open>The definitions with the suffix \<open>_pkg\<close> are the methods of this file: it works in
  \<^verbatim>\<open>BuildDir\<close> itself and deletes the archive once it is unpacked.\<close>

definition Unpack_pkg :: "sys \<Rightarrow> Info \<Rightarrow> world \<Rightarrow> outcome \<times> Info \<times> world" where
  "Unpack_pkg s env w =
     (if SrcPath env = [] \<or> BuildDir env = [] then (Err InvalidParameters, env, w)
      else
        let (isdir, w1) = IsDir w (SrcPath env) in
        if isdir then (Ok, env, w1)
        else
          let format = DetectTarballFormat s (SrcPath env) in
          if format = [] then (Ok, env\<lparr>SrcDir := BuildDir env\<rparr>, w1)
          else
            let (tar, w2) = LookPath s w1 ''tar'' in
            case tar of
              None \<Rightarrow> (Err (NotAvailable ''tar''), env, w2)
            | Some tarPath \<Rightarrow>
                let tarArg = GetTarArgs s format in
                if tarArg = [] then (Err UnsupportedFormat, env, w2)
                else
                  let cmd = (Command tarPath [tarArg, SrcPath env])\<lparr>CmdDir := BuildDir env\<rparr>;
                      (ran, w3) = Run s w2 (ExecCmd cmd) in
                  if \<not> ran then (Err CommandFailed, env, w3)
                  else
                    let (removed, w4) = Remove s w3 (SrcPath env) in
                    if \<not> removed then (Err FailedToDelete, env, w4)
                    else
                      let (entries, w5) = ReadDir s w4 (BuildDir env) in
                      (case entries of
                         None \<Rightarrow> (Err FailedToReadDir, env, w5)
                       | Some es \<Rightarrow>
                           (case es of
                              [e] \<Rightarrow> (Ok, env\<lparr>SrcDir := Join [BuildDir env, e]\<rparr>, w5)
                            | _ \<Rightarrow> (Err (Inconsistent (length es)), env, w5))))"

definition copyTarball_pkg ::
  "sys \<Rightarrow> Info \<Rightarrow> app_Info \<Rightarrow> world \<Rightarrow> outcome \<times> Info \<times> app_Info \<times> world" where
  "copyTarball_pkg s env p w =
     (if URL p = [] then (Err InvalidParameters, env, p, w)
      else
        let p1 = (if Tarball p = [] then p\<lparr>Tarball := Base (URL p)\<rparr> else p);
            targetTarballPath = Join [BuildDir env, Tarball p1] in
        if length (URL p1) < 7 then (Panic, env, p1, w)
        else
          let (copied, w1) = CopyFile s w (drop 7 (URL p1)) targetTarballPath in
          if \<not> copied then (Err CannotCopyFile, env, p1, w1)
          else (Ok, env\<lparr>SrcPath := Join [BuildDir env, Tarball p1]\<rparr>, p1, w1))"

text \<open>The two branches of \<^verbatim>\<open>gitCheckout\<close> (\<^verbatim>\<open>pull\<close> in an existing checkout, \<^verbatim>\<open>clone\<close>
  otherwise) run their command and return its failure in the same words, and the two
  fields are written after them: the model chooses the command, then runs it once.\<close>

definition gitCheckout_pkg ::
  "sys \<Rightarrow> Info \<Rightarrow> app_Info \<Rightarrow> world \<Rightarrow> outcome \<times> Info \<times> app_Info \<times> world" where
  "gitCheckout_pkg s env p w =
     (let (git, w1) = LookPath s w ''git'' in
      case git of
        None \<Rightarrow> (Err (NotAvailable ''git''), env, p, w1)
      | Some gitBin \<Rightarrow>
          let repoName = Replace (Base (URL p)) ''.git'' [] 1;
              checkoutPath = Join [BuildDir env, repoName];
              (ex, w2) = PathExists w1 checkoutPath;
              gitCmd = (if ex then (Command gitBin [''pull''])\<lparr>CmdDir := checkoutPath\<rparr>
                        else (Command gitBin [''clone'', URL p])\<lparr>CmdDir := BuildDir env\<rparr>);
              (ran, w3) = Run s w2 (ExecCmd gitCmd) in
          if \<not> ran then (Err CommandFailed, env, p, w3)
          else (Ok, env\<lparr>SrcPath := checkoutPath, SrcDir := checkoutPath\<rparr>, p, w3))"

definition download_pkg ::
  "sys \<Rightarrow> Info \<Rightarrow> app_Info \<Rightarrow> world \<Rightarrow> outcome \<times> Info \<times> app_Info \<times> world" where
  "download_pkg s env p w =
     (if URL p = [] \<or> BuildDir env = [] then (Err InvalidParameters, env, p, w)
      else
        let (wget, w1) = LookPath s w ''wget'' in
        case wget of
          None \<Rightarrow> (Err (NotAvailable ''wget''), env, p, w1)
        | Some binPath \<Rightarrow>
            let cmd = (Command binPath [URL p])\<lparr>CmdDir := BuildDir env\<rparr>;
                (ran, w2) = Run s w1 (ExecCmd cmd) in
            if \<not> ran then (Err CommandFailed, env, p, w2)
            else
              let (files, w3) = ReadDir s w2 (BuildDir env) in
              (case files of
                 None \<Rightarrow> (Err FailedToReadDir, env, p, w3)
               | Some fl \<Rightarrow>
                   (case fl of
                      [f] \<Rightarrow> (Ok, env\<lparr>SrcPath := Join [BuildDir env, f]\<rparr>, p\<lparr>Tarball := f\<rparr>, w3)
                    | _ \<Rightarrow> (Err (Inconsistent (length fl)), env, p, w3))))"

definition Get_pkg ::
  "sys \<Rightarrow> Info \<Rightarrow> app_Info \<Rightarrow> world \<Rightarrow> outcome \<times> Info \<times> app_Info \<times> world" where
  "Get_pkg s env p w =
     (if URL p = [] then (Err InvalidParameters, env, p, w)
      else
        (case DetectURLType s (URL p) of
           Panics \<Rightarrow> (Panic, env, p, w)
         | Returns urlFormat \<Rightarrow>
             if urlFormat = [] then (Err UndetectedType, env, p, w)
             else if urlFormat = FileURL then wrap ImpossibleToCopy (copyTarball_pkg s env p w)
             else if urlFormat = HttpURL then wrap ImpossibleToDownload (download_pkg s env p w)
             else if urlFormat = GitURL then wrap ImpossibleToGet (gitCheckout_pkg s env p w)
             else (Err UndetectedURLType, env, p, w)))"


subsection \<open>\<^verbatim>\<open>src/unnamed/part_000\<close>\<close>

text \<open>The definitions with the suffix \<open>_p0\<close> are the methods of the second file of the
  package: it works in a subdirectory of \<^verbatim>\<open>BuildDir\<close> named after the package, copies a
  local directory with \<^verbatim>\<open>cp -rf\<close>, skips a download whose target is there, unpacks in
  \<^verbatim>\<open>SrcDir\<close> and keeps the archive.\<close>

definition Unpack_p0 :: "sys \<Rightarrow> Info \<Rightarrow> world \<Rightarrow> outcome \<times> Info \<times> world" where
  "Unpack_p0 s env w =
     (if SrcPath env = [] \<or> BuildDir env = [] then (Err InvalidParameters, env, w)
      else
        let (isdir, w1) = IsDir w (SrcPath env) in
        if isdir then (Ok, env, w1)
        else
          let format = DetectTarballFormat s (SrcPath env) in
          if format = [] then (Ok, env\<lparr>SrcDir := BuildDir env\<rparr>, w1)
          else
            let (tar, w2) = LookPath s w1 ''tar'' in
            case tar of
              None \<Rightarrow> (Err (NotAvailable ''tar''), env, w2)
            | Some tarPath \<Rightarrow>
                let tarArg = GetTarArgs s format in
                if tarArg = [] then (Err UnsupportedFormat, env, w2)
                else
                  let cmd = (Command tarPath [tarArg, SrcPath env])\<lparr>CmdDir := SrcDir env\<rparr>;
                      (ran, w3) = Run s w2 (ExecCmd cmd) in
                  if \<not> ran then (Err CommandFailed, env, w3)
                  else
                    let (entries, w4) = ReadDir s w3 (SrcDir env) in
                    (case entries of
                       None \<Rightarrow> (Err FailedToReadDir, env, w4)
                     | Some es \<Rightarrow>
                         if length es \<noteq> 2 then (Err (Inconsistent (length es)), env, w4)
                         else
                           (case find (\<lambda>e. e \<noteq> Base (SrcPath env)) es of
                              None \<Rightarrow> (Ok, env, w4)
                            | Some e \<Rightarrow> (Ok, env\<lparr>SrcDir := Join [SrcDir env, e]\<rparr>, w4))))"

definition copyTarball_p0 ::
  "sys \<Rightarrow> Info \<Rightarrow> app_Info \<Rightarrow> world \<Rightarrow> outcome \<times> Info \<times> app_Info \<times> world" where
  "copyTarball_p0 s env p w =
     (if URL p = [] then (Err InvalidParameters, env, p, w)
      else
        let p1 = (if Tarball p = [] then p\<lparr>Tarball := Base (URL p)\<rparr> else p);
            targetTarballPath = Join [BuildDir env, Name p1, Tarball p1] in
        if length (URL p1) < 7 then (Panic, env, p1, w)
        else
          let (copied, w1) = CopyFile s w (drop 7 (URL p1)) targetTarballPath in
          if \<not> copied then (Err CannotCopyFile, env, p1, w1)
          else (Ok, env\<lparr>SrcPath := targetTarballPath\<rparr>, p1, w1))"

definition gitCheckout_p0 ::
  "sys \<Rightarrow> Info \<Rightarrow> app_Info \<Rightarrow> world \<Rightarrow> outcome \<times> Info \<times> app_Info \<times> world" where
  "gitCheckout_p0 s env p w =
     (let (git, w1) = LookPath s w ''git'' in
      case git of
        None \<Rightarrow> (Err (NotAvailable ''git''), env, p, w1)
      | Some gitBin \<Rightarrow>
          let repoName = Replace (Base (URL p)) ''.git'' [] 1;
              targetDir = Join [BuildDir env, Name p];
              (made, w2) = ensureMkdir s w1 targetDir in
          if \<not> made then (Err OsError, env, p, w2)
          else
            let checkoutPath = Join [targetDir, repoName];
                (ex, w3) = PathExists w2 checkoutPath;
                gitCmd = (if ex then (Command gitBin [''pull''])\<lparr>CmdDir := checkoutPath\<rparr>
                          else (Command gitBin [''clone'', URL p])\<lparr>CmdDir := targetDir\<rparr>);
                (ran, w4) = Run s w3 (ExecCmd gitCmd) in
            if \<not> ran then (Err CommandFailed, env, p, w4)
            else (Ok, env\<lparr>SrcPath := checkoutPath, SrcDir := checkoutPath\<rparr>, p, w4))"

definition download_p0 ::
  "sys \<Rightarrow> Info \<Rightarrow> app_Info \<Rightarrow> world \<Rightarrow> outcome \<times> Info \<times> app_Info \<times> world" where
  "download_p0 s env p w =
     (if URL p = [] \<or> BuildDir env = [] then (Err InvalidParameters, env, p, w)
      else
        let env1 = env\<lparr>SrcDir := Join [BuildDir env, Name p]\<rparr>;
            (made, w1) = ensureMkdir s w (SrcDir env1) in
        if \<not> made then (Err OsError, env1, p, w1)
        else
          let targetFile = Join [SrcDir env1, Base (URL p)];
              (there, w2) = FileExists w1 targetFile in
          (case there of
             Panics \<Rightarrow> (Panic, env1, p, w2)
           | Returns found \<Rightarrow>
               if found
               then (Ok, env1\<lparr>SrcPath := targetFile\<rparr>, p\<lparr>Tarball := Base targetFile\<rparr>, w2)
               else
                 let (wget, w3) = LookPath s w2 ''wget'' in
                 (case wget of
                    None \<Rightarrow> (Err (NotAvailable ''wget''), env1, p, w3)
                  | Some binPath \<Rightarrow>
                      let cmd = (Command binPath [URL p])\<lparr>CmdDir := SrcDir env1\<rparr>;
                          (ran, w4) = Run s w3 (ExecCmd cmd) in
                      if \<not> ran then (Err CommandFailed, env1, p, w4)
                      else (Ok, env1\<lparr>SrcPath := targetFile\<rparr>,
                            p\<lparr>Tarball := Base targetFile\<rparr>, w4))))"

definition Get_p0 ::
  "sys \<Rightarrow> Info \<Rightarrow> app_Info \<Rightarrow> world \<Rightarrow> outcome \<times> Info \<times> app_Info \<times> world" where
  "Get_p0 s env p w =
     (if URL p = [] then (Err InvalidParameters, env, p, w)
      else
        (case DetectURLType s (URL p) of
           Panics \<Rightarrow> (Panic, env, p, w)
         | Returns urlFormat \<Rightarrow>
             if urlFormat = [] then (Err UndetectedType, env, p, w)
             else if urlFormat = FileURL then
               (if length (URL p) < 7 then (Panic, env, p, w)
                else
                  let path = drop 7 (URL p);
                      (isdir, w1) = IsDir w path in
                  if \<not> isdir then wrap ImpossibleToCopy (copyTarball_p0 s env p w1)
                  else
                    let targetDir = Join [BuildDir env, Name p];
                        (made, w2) = ensureMkdirAll s w1 targetDir in
                    if \<not> made then (Err OsError, env, p, w2)
                    else
                      let (cp, w3) = LookPath s w2 ''cp'' in
                      (case cp of
                         None \<Rightarrow> (Err (NotAvailable ''cp''), env, p, w3)
                       | Some binPath \<Rightarrow>
                           let cmd = \<lparr>BinPath = binPath, CmdArgs = [''-rf'', path, targetDir],
                                      ExecDir = [], ManifestName = [], ManifestDir = [],
                                      CmdEnv = []\<rparr>;
                               (ran, w4) = Run s w3 (AdvExec cmd) in
                           if \<not> ran then (Err UnableToCopy, env, p, w4)
                           else
                             let dest = Join [targetDir, Base (URL p)] in
                             (Ok, env\<lparr>SrcPath := dest, SrcDir := dest\<rparr>, p, w4)))
             else if urlFormat = HttpURL then wrap ImpossibleToDownload (download_p0 s env p w)
             else if urlFormat = GitURL then wrap ImpossibleToGet (gitCheckout_p0 s env p w)
             else (Err UndetectedURLType, env, p, w)))"

subsection \<open>The methods the two files share\<close>

text \<open>\<^verbatim>\<open>IsInstalled\<close>, \<^verbatim>\<open>lookPath\<close>, \<^verbatim>\<open>Install\<close> and \<^verbatim>\<open>Init\<close> are the same text in both
  files (the receiver of \<^verbatim>\<open>Init\<close> is named \<^verbatim>\<open>e\<close> in one and \<^verbatim>\<open>env\<close> in the other).\<close>

definition IsInstalled ::
  "sys \<Rightarrow> Info \<Rightarrow> app_Info \<Rightarrow> world \<Rightarrow> bool go \<times> Info \<times> app_Info \<times> world" where
  "IsInstalled s env p w =
     (case DetectURLType s (URL p) of
        Panics \<Rightarrow> (Panics, env, p, w)
      | Returns kind \<Rightarrow>
          if kind = FileURL then
            let filename = Base (URL p);
                (inBuild, w1) = FileExists w (Join [BuildDir env, filename]) in
            (case inBuild of
               Panics \<Rightarrow> (Panics, env, p, w1)
             | Returns found \<Rightarrow>
                 if found then (Returns True, env, p, w1)
                 else
                   let (inInstall, w2) = FileExists w1 (Join [InstallDir env, filename])
                   in (inInstall, env, p, w2))
          else if kind = HttpURL then
            let (there, w1) = FileExists w (Join [BuildDir env, Base (URL p)])
            in (there, env, p, w1)
          else if kind = GitURL then
            let dirname = Replace (Base (URL p)) ''.git'' [] (- 1);
                (there, w1) = PathExists w (Join [BuildDir env, dirname])
            in (Returns there, env, p, w1)
          else (Returns False, env, p, w))"

text \<open>The inner loop of \<^verbatim>\<open>lookPath\<close> over the directories of a \<^verbatim>\<open>PATH\<close> entry, and its
  outer loop over \<^verbatim>\<open>env.Env\<close>. \<^verbatim>\<open>envEntry[0]\<close> always exists; \<^verbatim>\<open>envEntry[1]\<close> is read
  whenever \<^verbatim>\<open>envEntry[0]\<close> is \<^verbatim>\<open>PATH\<close>, and panics when the entry has no \<^verbatim>\<open>=\<close>. A panic
  of \<^verbatim>\<open>util.FileExists\<close> ends both loops.\<close>

fun lookPath_tokens :: "world \<Rightarrow> string \<Rightarrow> string list \<Rightarrow> string option go \<times> world" where
  "lookPath_tokens w bin [] = (Returns None, w)"
| "lookPath_tokens w bin (t # ts) =
     (let fullPath = Join [t, bin];
          r = FileExists w fullPath
      in (case fst r of
            Panics \<Rightarrow> (Panics, snd r)
          | Returns found \<Rightarrow>
              if found then (Returns (Some fullPath), snd r)
              else lookPath_tokens (snd r) bin ts))"

fun lookPath_entries :: "world \<Rightarrow> string \<Rightarrow> string list \<Rightarrow> string go \<times> world" where
  "lookPath_entries w bin [] = (Returns bin, w)"
| "lookPath_entries w bin (e # es) =
     (case Split e (CHR ''='') of
        [] \<Rightarrow> (Panics, w)
      | k # vs \<Rightarrow>
          if k = ''PATH'' then
            (case vs of
               [] \<Rightarrow> (Panics, w)
             | v # _ \<Rightarrow>
                 let r = lookPath_tokens w bin (Split v (CHR '':''))
                 in (case fst r of
                       Panics \<Rightarrow> (Panics, snd r)
                     | Returns (Some fullPath) \<Rightarrow> (Returns fullPath, snd r)
                     | Returns None \<Rightarrow> lookPath_entries (snd r) bin es))
          else lookPath_entries w bin es)"

definition lookPath :: "Info \<Rightarrow> world \<Rightarrow> string \<Rightarrow> string go \<times> world" where
  "lookPath env w bin = lookPath_entries w bin (Env env)"

definition Install ::
  "sys \<Rightarrow> Info \<Rightarrow> app_Info \<Rightarrow> world \<Rightarrow> outcome \<times> Info \<times> app_Info \<times> world" where
  "Install s env p w =
     (if InstallCmd p = [] then (Ok, env, p, w)
      else
        (case Split (InstallCmd p) (CHR '' '') of
           [] \<Rightarrow> (Panic, env, p, w)
         | bin # args \<Rightarrow>
             let (found, w1) = lookPath env w bin in
             (case found of
                Panics \<Rightarrow> (Panic, env, p, w1)
              | Returns binPath \<Rightarrow>
                  let cmd = \<lparr>BinPath = binPath, CmdArgs = args, ExecDir = SrcDir env,
                             ManifestName = ''install'', ManifestDir = InstallDir env,
                             CmdEnv = Env env\<rparr>;
                      (ran, w2) = Run s w1 (AdvExec cmd) in
                  if \<not> ran then (Err FailedToInstall, env, p, w2) else (Ok, env, p, w2))))"

definition Init :: "sys \<Rightarrow> Info \<Rightarrow> world \<Rightarrow> outcome \<times> Info \<times> world" where
  "Init s env w =
     (let (made1, w1) = ensureMkdirAll s w (ScratchDir env) in
      if \<not> made1 then (Err (FailedToCreate ''scratch'' (ScratchDir env)), env, w1)
      else
        let (made2, w2) = ensureMkdirAll s w1 (BuildDir env) in
        if \<not> made2 then (Err (FailedToCreate ''build'' (BuildDir env)), env, w2)
        else
          let (made3, w3) = ensureMkdirAll s w2 (InstallDir env) in
          if \<not> made3 then (Err (FailedToCreate ''build'' (InstallDir env)), env, w3)
          else (Ok, env, w3))"


subsection \<open>What was run\<close>

text \<open>The processes among the recorded calls, in order.\<close>

fun runs_of :: "event list \<Rightarrow> proc list" where
  "runs_of [] = []"
| "runs_of (ERun pr # es) = pr # runs_of es"
| "runs_of (e # es) = runs_of es"

definition runs :: "world \<Rightarrow> proc list" where
  "runs w = runs_of (events w)"


section \<open>A sample system\<close>

text \<open>
  One system to run the methods on: a classifier of URLs that slices the first seven
  bytes as \<^verbatim>\<open>util.DetectURLType\<close> does (\<^verbatim>\<open>url[:7]\<close> panics on a shorter URL; then a
  \<^verbatim>\<open>file://\<close> prefix, then an \<^verbatim>\<open>http\<close> prefix with \<^verbatim>\<open>.git\<close> at the end for a
  repository, and no kind otherwise), \<^verbatim>\<open>.tar.gz\<close> archives
  unpacked with \<^verbatim>\<open>tar -xzf\<close>, every binary found in \<^verbatim>\<open>/usr/bin\<close>, no failure of the
  operating system, and child processes that succeed: \<^verbatim>\<open>tar\<close> unpacks a directory
  \<^verbatim>\<open>foo-1.0\<close>, \<^verbatim>\<open>wget\<close> writes the file it fetches, \<^verbatim>\<open>git clone\<close> makes the checkout,
  each in its working directory.
\<close>

definition HasSuffix :: "string \<Rightarrow> string \<Rightarrow> bool" where
  "HasSuffix s suffix = HasPrefix (rev s) (rev suffix)"

definition demo_DetectURLType :: "string \<Rightarrow> string go" where
  "demo_DetectURLType u =
     (if length u < 7 then Panics
      else if take 7 u = ''file://'' then Returns FileURL
      else if take 4 u = ''http'' then Returns (if HasSuffix u ''.git'' then GitURL else HttpURL)
      else Returns [])"

definition demo_effect :: "proc \<Rightarrow> filesystem \<Rightarrow> bool \<times> filesystem" where
  "demo_effect pr t =
     (case pr of
        ExecCmd c \<Rightarrow>
          if Base (Path c) = ''tar''
            then (True, (Join [CmdDir c, ''foo-1.0''], DirNode) # t)
          else if Base (Path c) = ''wget''
            then (True, (Join [CmdDir c, Base (last (Args c))], FileNode ''download'') # t)
          else if Base (Path c) = ''git'' \<and> length (Args c) = 3
            then (True, (Join [CmdDir c, Replace (Base (last (Args c))) ''.git'' [] 1], DirNode) # t)
          else (True, t)
      | AdvExec a \<Rightarrow> (True, t))"

definition demo_sys :: sys where
  "demo_sys =
     \<lparr>DetectURLType = demo_DetectURLType,
      DetectTarballFormat = (\<lambda>p. if HasSuffix p ''.tar.gz'' then ''gz'' else []),
      GetTarArgs = (\<lambda>f. if f = ''gz'' then ''-xzf'' else []),
      path_search = (\<lambda>t bin. Some (''/usr/bin/'' @ bin)),
      proc_effect = demo_effect,
      os_fault = (\<lambda>e t. False)\<rparr>"

definition demo_env :: Info where
  "demo_env =
     \<lparr>SrcPath = [], SrcDir = [], ScratchDir = ''/scratch'', InstallDir = ''/scratch/install'',
      BuildDir = ''/scratch/build'', Env = [''PATH=/opt/bin:/usr/bin'']\<rparr>"

definition demo_pkg :: app_Info where
  "demo_pkg = \<lparr>Name = ''foo'', URL = ''file:///tmp/pkgs/foo-1.0.tar.gz'', Tarball = [],
     InstallCmd = []\<rparr>"

definition demo_http :: app_Info where
  "demo_http = \<lparr>Name = ''foo'', URL = ''https://example.com/dl/foo-1.0.tar.gz'', Tarball = [],
     InstallCmd = []\<rparr>"

definition demo_git :: app_Info where
  "demo_git = \<lparr>Name = ''bar'', URL = ''https://example.com/org/bar.git'', Tarball = [],
     InstallCmd = []\<rparr>"

text \<open>The same system with an archive that holds nothing: \<^verbatim>\<open>tar\<close> succeeds and leaves the
  file system as it is.\<close>

definition demo_sys_empty_archive :: sys where
  "demo_sys_empty_archive = demo_sys\<lparr>proc_effect := (\<lambda>pr t. (True, t))\<rparr>"

text \<open>File systems: a fresh build directory, one with a checkout of \<^verbatim>\<open>bar\<close>, one with
  an archive waiting to be unpacked, one with a download already in the package's
  subdirectory, the same relative to the current directory, and one with a local archive to
  copy.\<close>

definition demo_fresh :: world where
  "demo_fresh = \<lparr>fs = [(''/scratch/build'', DirNode), (''/scratch'', DirNode)], events = []\<rparr>"

definition demo_checkout :: world where
  "demo_checkout =
     \<lparr>fs = [(''/scratch/build/bar'', DirNode), (''/scratch/build'', DirNode), (''/scratch'', DirNode)],
      events = []\<rparr>"

definition demo_archive :: world where
  "demo_archive =
     \<lparr>fs = [(''/scratch/build/foo-1.0.tar.gz'', FileNode ''archive''),
            (''/scratch/build'', DirNode), (''/scratch'', DirNode)],
      events = []\<rparr>"


definition demo_downloaded :: world where
  "demo_downloaded =
     \<lparr>fs = [(''/scratch/build/foo/foo-1.0.tar.gz'', FileNode ''archive''),
            (''/scratch/build/foo'', DirNode), (''/scratch/build'', DirNode),
            (''/scratch'', DirNode)],
      events = []\<rparr>"

definition demo_relative :: world where
  "demo_relative =
     \<lparr>fs = [(''foo/foo-1.0.tar.gz'', FileNode ''archive''), (''foo'', DirNode)], events = []\<rparr>"

definition demo_local :: world where
  "demo_local =
     \<lparr>fs = [(''/tmp/pkgs/foo-1.0.tar.gz'', FileNode ''archive''), (''/tmp/pkgs'', DirNode),
            (''/tmp'', DirNode), (''/scratch/build/foo'', DirNode), (''/scratch/build'', DirNode),
            (''/scratch'', DirNode)],
      events = []\<rparr>"


section \<open>Facts about the model\<close>

lemmas demo_eval =
  demo_sys_def demo_sys_empty_archive_def demo_env_def demo_pkg_def demo_DetectURLType_def
  demo_effect_def
  HasSuffix_def FileURL_def HttpURL_def GitURL_def

lemmas os_eval =
  stat_def Clean_def Dir_def Join_def Base_def Command_def log_def Let_def
  PathExists_def IsDir_def FileExists_def under_file_def LookPath_def Run_def
  Mkdir_def Mkdir_fs_def MkdirAll_def Remove_def Remove_fs_def ReadDir_def ReadDir_fs_def
  CopyFile_def CopyFile_fs_def children_def ensureMkdir_def ensureMkdirAll_def

lemma fs_log [simp]: "fs (log w e) = fs w"
  by (simp add: log_def)

lemma events_log [simp]: "events (log w e) = events w @ [e]"
  by (simp add: log_def)

lemma runs_of_append [simp]: "runs_of (xs @ ys) = runs_of xs @ runs_of ys"
  by (induction xs rule: runs_of.induct) simp_all

lemma runs_log_ERun [simp]: "runs_of (events w @ [ERun pr]) = runs w @ [pr]"
  by (simp add: runs_def)

lemma kinds_distinct [simp]:
  "HttpURL \<noteq> []" "GitURL \<noteq> []" "FileURL \<noteq> []"
  "HttpURL \<noteq> FileURL" "GitURL \<noteq> FileURL" "GitURL \<noteq> HttpURL"
  by (simp_all add: FileURL_def HttpURL_def GitURL_def)

subsection \<open>Directories, once made, stay\<close>

lemma stat_same_key: "p \<noteq> [] \<Longrightarrow> q \<noteq> [] \<Longrightarrow> Clean q = Clean p \<Longrightarrow> stat t q = stat t p"
  by (simp add: stat_def)

lemma stat_cons:
  "stat ((k, n) # t) q =
     (if q \<noteq> [] \<and> Clean q = k \<and> k \<noteq> ''/'' \<and> k \<noteq> ''.'' then Some n else stat t q)"
  by (simp add: stat_def Let_def)

lemma stat_Mkdir_fs_new:
  assumes "Mkdir_fs s t p = (True, t')"
  shows "stat t' p = Some DirNode"
proof -
  from assms have t': "t' = (Clean p, DirNode) # t" and p: "p \<noteq> []"
    by (auto simp: Mkdir_fs_def split: if_splits)
  show ?thesis
    unfolding t' using p by (simp add: stat_def Let_def)
qed

lemma stat_Mkdir_fs_keeps:
  assumes "stat t q = Some n"
  shows "stat (snd (Mkdir_fs s t p)) q = Some n"
proof (cases "fst (Mkdir_fs s t p)")
  case False
  then have "snd (Mkdir_fs s t p) = t"
    by (auto simp: Mkdir_fs_def split: if_splits)
  with assms show ?thesis by simp
next
  case True
  then have t': "snd (Mkdir_fs s t p) = (Clean p, DirNode) # t"
    and p: "p \<noteq> []" and new: "stat t p = None"
    by (auto simp: Mkdir_fs_def split: if_splits)
  from assms have q: "q \<noteq> []" by (auto simp: stat_def)
  have "Clean q \<noteq> Clean p"
  proof
    assume "Clean q = Clean p"
    from stat_same_key [OF p q this] assms new show False by simp
  qed
  then show ?thesis
    unfolding t' stat_cons using assms by simp
qed

lemma stat_Mkdir_fs_made:
  "fst (Mkdir_fs s t p) \<Longrightarrow> stat (snd (Mkdir_fs s t p)) p = Some DirNode"
  using stat_Mkdir_fs_new [of s t p "snd (Mkdir_fs s t p)"]
  by (cases "Mkdir_fs s t p") simp

lemma stat_MkdirAll_fs_new:
  assumes "MkdirAll_fs s t p = (True, t')"
  shows "stat t' p = Some DirNode"
  using assms
  by (subst (asm) MkdirAll_fs.simps)
     (auto simp: Let_def stat_Mkdir_fs_made split: if_splits)

lemma stat_MkdirAll_fs_keeps:
  "stat t q = Some n \<Longrightarrow> stat (snd (MkdirAll_fs s t p)) q = Some n"
proof (induction s t p rule: MkdirAll_fs.induct)
  case (1 s t path)
  show ?case
    using "1.prems" "1.IH"
    by (subst MkdirAll_fs.simps) (auto simp: Let_def stat_Mkdir_fs_keeps)
qed

lemma ensureMkdirAll_there:
  "stat (fs w) d \<noteq> None \<Longrightarrow> ensureMkdirAll s w d = (True, log w (EStat d))"
  by (simp add: ensureMkdirAll_def PathExists_def)

lemma ensureMkdirAll_made:
  assumes "ensureMkdirAll s w d = (True, w')"
  shows "stat (fs w') d \<noteq> None"
proof (cases "stat (fs w) d = None")
  case False
  with assms show ?thesis by (auto simp: ensureMkdirAll_there)
next
  case True
  with assms have "MkdirAll_fs s (fs w) d = (True, fs w')"
    by (cases "MkdirAll_fs s (fs w) d")
       (auto simp: ensureMkdirAll_def PathExists_def MkdirAll_def Let_def)
  from stat_MkdirAll_fs_new [OF this] show ?thesis by simp
qed

lemma ensureMkdirAll_keeps:
  assumes "stat (fs w) q \<noteq> None"
  shows "stat (fs (snd (ensureMkdirAll s w d))) q \<noteq> None"
proof -
  from assms obtain n where n: "stat (fs w) q = Some n" by auto
  show ?thesis
    using stat_MkdirAll_fs_keeps [OF n, of s d] n
    by (simp add: ensureMkdirAll_def PathExists_def MkdirAll_def Let_def)
qed

lemma fst_ensureMkdir:
  "fst (ensureMkdir s w d) = (stat (fs w) d \<noteq> None \<or> fst (Mkdir_fs s (fs w) d))"
  by (simp add: ensureMkdir_def PathExists_def Mkdir_def Let_def)

lemma stat_ensureMkdir_other:
  assumes "Clean q \<noteq> Clean d"
  shows "stat (fs (snd (ensureMkdir s w d))) q = stat (fs w) q"
  using assms
  by (simp add: ensureMkdir_def PathExists_def Mkdir_def Mkdir_fs_def stat_cons Let_def)

lemma runs_ensureMkdir: "runs (snd (ensureMkdir s w d)) = runs w"
  by (simp add: ensureMkdir_def PathExists_def Mkdir_def Let_def runs_def)

lemma stat_CopyFile_fs:
  assumes "stat t src = Some (FileNode c)" and "fst (CopyFile_fs s t src dst)"
  shows "stat (snd (CopyFile_fs s t src dst)) dst = Some (FileNode c)"
  using assms by (auto simp: CopyFile_fs_def stat_cons split: if_splits) (auto simp: stat_def Let_def)

subsection \<open>A URL without a kind, and the frame of \<^verbatim>\<open>IsInstalled\<close>\<close>

text \<open>When the URL is empty, or the classifier returns a kind that is none of the three,
  \<^verbatim>\<open>Get\<close> of either file returns its error with the environment, the descriptor and the
  world it was given. When the classifier panics on a URL that is not empty, so does
  \<^verbatim>\<open>Get\<close>.\<close>

lemma Get_unclassified_returns:
  assumes "URL p = [] \<or> (DetectURLType s (URL p) = Returns k \<and> k \<notin> {FileURL, HttpURL, GitURL})"
  shows "Get_pkg s env p w =
           (Err (if URL p = [] then InvalidParameters
                 else if k = [] then UndetectedType
                 else UndetectedURLType), env, p, w)
       \<and> Get_p0 s env p w =
           (Err (if URL p = [] then InvalidParameters
                 else if k = [] then UndetectedType
                 else UndetectedURLType), env, p, w)"
  using assms by (auto simp: Get_pkg_def Get_p0_def)

lemma Get_classifier_panics:
  assumes "URL p \<noteq> []" and "DetectURLType s (URL p) = Panics"
  shows "Get_pkg s env p w = (Panic, env, p, w) \<and> Get_p0 s env p w = (Panic, env, p, w)"
  using assms by (simp add: Get_pkg_def Get_p0_def)

text \<open>Whatever \<^verbatim>\<open>IsInstalled\<close> ends with, a boolean or a panic, the environment and the
  descriptor are the ones it was given, the file system is the one it found, and all it
  did was probe paths.\<close>

lemma IsInstalled_frame:
  "(case IsInstalled s env p w of
      (r, env', p', w') \<Rightarrow>
        env' = env \<and> p' = p \<and> fs w' = fs w
        \<and> (\<exists>probes. events w' = events w @ map EStat probes))"
proof -
  have one: "\<exists>probes. events w @ [EStat a] = events w @ map EStat probes" for a
    by (rule exI [of _ "[a]"]) simp
  have two: "\<exists>probes. events w @ [EStat a, EStat b] = events w @ map EStat probes" for a b
    by (rule exI [of _ "[a, b]"]) simp
  have zero: "\<exists>probes. events w = events w @ map EStat probes"
    by (rule exI [of _ "[]"]) simp
  show ?thesis
    using one two zero
    by (simp add: IsInstalled_def Let_def PathExists_def FileExists_def log_def
        split: prod.splits go.splits)
qed

subsection \<open>A listing has no name twice\<close>

lemma set_insert_name [simp]: "set (insert_name x xs) = insert x (set xs)"
  by (induction xs) auto

lemma distinct_insert_name [simp]: "distinct (insert_name x xs) = (x \<notin> set xs \<and> distinct xs)"
  by (induction xs) auto

lemma set_sort_names [simp]: "set (sort_names xs) = set xs"
  by (induction xs) auto

lemma distinct_sort_names [simp]: "distinct (sort_names xs) = distinct xs"
  by (induction xs) auto




section \<open>The claims\<close>

subsection \<open>C1\<close>

text \<open>
  C1, as the code has it. A descriptor with a non-empty URL of the HTTP kind, a non-empty
  \<^verbatim>\<open>BuildDir\<close>, the subdirectory of \<^verbatim>\<open>BuildDir\<close> named after the package in place and the
  target (that subdirectory joined with the base name of the URL) a regular file in it.
  \<^verbatim>\<open>Get\<close> of \<^verbatim>\<open>part_000\<close> then succeeds after two probes: it runs no process, the file
  system is the one it found, \<^verbatim>\<open>SrcDir\<close> is the subdirectory, \<^verbatim>\<open>SrcPath\<close> the target and
  \<^verbatim>\<open>Tarball\<close> its base name. \<^verbatim>\<open>Get\<close> of \<^verbatim>\<open>pkg/buildenv/buildenv.go\<close> has no such test:
  as soon as \<^verbatim>\<open>wget\<close> is found it is the one process run, on the URL, in \<^verbatim>\<open>BuildDir\<close>.
\<close>

theorem Get_http_existing_target:
  assumes "URL p \<noteq> []" and "DetectURLType s (URL p) = Returns HttpURL" and "BuildDir env \<noteq> []"
    and "stat (fs w) (Join [BuildDir env, Name p]) \<noteq> None"
    and "stat (fs w) (Join [Join [BuildDir env, Name p], Base (URL p)]) = Some (FileNode c)"
  shows "Get_p0 s env p w =
           (Ok,
            env\<lparr>SrcDir := Join [BuildDir env, Name p],
                SrcPath := Join [Join [BuildDir env, Name p], Base (URL p)]\<rparr>,
            p\<lparr>Tarball := Base (Join [Join [BuildDir env, Name p], Base (URL p)])\<rparr>,
            w\<lparr>events := events w @
                [EStat (Join [BuildDir env, Name p]),
                 EStat (Join [Join [BuildDir env, Name p], Base (URL p)])]\<rparr>)
    \<and> (path_search s (fs w) ''wget'' = Some wget \<longrightarrow>
         runs (snd (snd (snd (Get_pkg s env p w)))) =
           runs w @ [ExecCmd ((Command wget [URL p])\<lparr>CmdDir := BuildDir env\<rparr>)])"
proof (intro conjI impI)
  show "Get_p0 s env p w =
           (Ok,
            env\<lparr>SrcDir := Join [BuildDir env, Name p],
                SrcPath := Join [Join [BuildDir env, Name p], Base (URL p)]\<rparr>,
            p\<lparr>Tarball := Base (Join [Join [BuildDir env, Name p], Base (URL p)])\<rparr>,
            w\<lparr>events := events w @
                [EStat (Join [BuildDir env, Name p]),
                 EStat (Join [Join [BuildDir env, Name p], Base (URL p)])]\<rparr>)"
    using assms
    by (simp add: Get_p0_def download_p0_def ensureMkdir_def PathExists_def FileExists_def
        log_def Let_def)
next
  assume wg: "path_search s (fs w) ''wget'' = Some wget"
  obtain ran t where eff: "proc_effect s (ExecCmd ((Command wget [URL p])\<lparr>CmdDir := BuildDir env\<rparr>)) (fs w) = (ran, t)"
    by (cases "proc_effect s (ExecCmd ((Command wget [URL p])\<lparr>CmdDir := BuildDir env\<rparr>)) (fs w)")
  show "runs (snd (snd (snd (Get_pkg s env p w)))) =
           runs w @ [ExecCmd ((Command wget [URL p])\<lparr>CmdDir := BuildDir env\<rparr>)]"
    using assms wg eff
    by (cases ran; cases "ReadDir_fs s t (BuildDir env)")
       (simp_all add: Get_pkg_def download_pkg_def LookPath_def Run_def ReadDir_def
          log_def Let_def runs_def split: list.splits)
qed

theorem Get_http_existing_target_witness:
  "URL demo_http \<noteq> []
   \<and> DetectURLType demo_sys (URL demo_http) = Returns HttpURL
   \<and> BuildDir demo_env \<noteq> []
   \<and> stat (fs demo_downloaded) ''/scratch/build/foo'' = Some DirNode
   \<and> stat (fs demo_downloaded) ''/scratch/build/foo/foo-1.0.tar.gz'' = Some (FileNode ''archive'')
   \<and> Get_p0 demo_sys demo_env demo_http demo_downloaded =
       (Ok,
        demo_env\<lparr>SrcDir := ''/scratch/build/foo'', SrcPath := ''/scratch/build/foo/foo-1.0.tar.gz''\<rparr>,
        demo_http\<lparr>Tarball := ''foo-1.0.tar.gz''\<rparr>,
        demo_downloaded\<lparr>events :=
          [EStat ''/scratch/build/foo'', EStat ''/scratch/build/foo/foo-1.0.tar.gz'']\<rparr>)
   \<and> path_search demo_sys (fs demo_downloaded) ''wget'' = Some ''/usr/bin/wget''
   \<and> runs (snd (snd (snd (Get_pkg demo_sys demo_env demo_http demo_downloaded)))) =
       [ExecCmd \<lparr>Path = ''/usr/bin/wget'',
                 Args = [''/usr/bin/wget'', ''https://example.com/dl/foo-1.0.tar.gz''],
                 CmdDir = ''/scratch/build''\<rparr>]"
proof -
  have j1: "Join [BuildDir demo_env, Name demo_http] = ''/scratch/build/foo''"
    by (simp add: demo_env_def demo_http_def Join_def Clean_def)
  have b: "Base (URL demo_http) = ''foo-1.0.tar.gz''"
    by (simp add: demo_http_def Base_def)
  have j2: "Join [''/scratch/build/foo'', ''foo-1.0.tar.gz''] = ''/scratch/build/foo/foo-1.0.tar.gz''"
    by (simp add: Join_def Clean_def)
  have b2: "Base ''/scratch/build/foo/foo-1.0.tar.gz'' = ''foo-1.0.tar.gz''"
    by (simp add: Base_def)
  have h1: "URL demo_http \<noteq> []" by (simp add: demo_http_def)
  have h2: "DetectURLType demo_sys (URL demo_http) = Returns HttpURL"
    by (simp add: demo_eval demo_http_def)
  have h3: "BuildDir demo_env \<noteq> []" by (simp add: demo_env_def)
  have s1: "stat (fs demo_downloaded) ''/scratch/build/foo'' = Some DirNode"
    by (simp add: demo_downloaded_def stat_def Clean_def)
  have s2: "stat (fs demo_downloaded) ''/scratch/build/foo/foo-1.0.tar.gz'' = Some (FileNode ''archive'')"
    by (simp add: demo_downloaded_def stat_def Clean_def)
  have h4: "stat (fs demo_downloaded) (Join [BuildDir demo_env, Name demo_http]) \<noteq> None"
    using s1 by (simp add: j1)
  have h5: "stat (fs demo_downloaded)
      (Join [Join [BuildDir demo_env, Name demo_http], Base (URL demo_http)]) = Some (FileNode ''archive'')"
    using s2 by (simp add: j1 b j2)
  have wg: "path_search demo_sys (fs demo_downloaded) ''wget'' = Some ''/usr/bin/wget''"
    by (simp add: demo_sys_def)
  from Get_http_existing_target [OF h1 h2 h3 h4 h5, of "''/usr/bin/wget''"] wg h1 h2 h3 s1 s2
  show ?thesis
    by (simp add: j1 b j2 b2 runs_def Command_def)
       (simp add: demo_downloaded_def demo_http_def demo_env_def)
qed

text \<open>On the sample system, with the download already in \<^verbatim>\<open>/scratch/build/foo\<close>, \<^verbatim>\<open>Get\<close>
  of \<^verbatim>\<open>pkg/buildenv/buildenv.go\<close> runs \<^verbatim>\<open>wget\<close> again and then fails on the two entries of
  \<^verbatim>\<open>BuildDir\<close>; and with an empty \<^verbatim>\<open>BuildDir\<close>, \<^verbatim>\<open>Get\<close> of \<^verbatim>\<open>part_000\<close> fails on its
  parameters although the target is there, relative to the current directory.\<close>

theorem Get_http_existing_target_counterexample:
  "DetectURLType demo_sys (URL demo_http) = Returns HttpURL
   \<and> stat (fs demo_downloaded) ''/scratch/build/foo/foo-1.0.tar.gz'' = Some (FileNode ''archive'')
   \<and> Get_pkg demo_sys demo_env demo_http demo_downloaded =
       (Err (ImpossibleToDownload (Inconsistent 2)), demo_env, demo_http,
        \<lparr>fs = (''/scratch/build/foo-1.0.tar.gz'', FileNode ''download'') # fs demo_downloaded,
         events =
           [ELookPath ''wget'',
            ERun (ExecCmd \<lparr>Path = ''/usr/bin/wget'',
                          Args = [''/usr/bin/wget'', ''https://example.com/dl/foo-1.0.tar.gz''],
                          CmdDir = ''/scratch/build''\<rparr>),
            EReadDir ''/scratch/build'']\<rparr>)
   \<and> stat (fs demo_relative) (Join [Join [[], Name demo_http], Base (URL demo_http)])
       = Some (FileNode ''archive'')
   \<and> Get_p0 demo_sys (demo_env\<lparr>BuildDir := []\<rparr>) demo_http demo_relative =
       (Err (ImpossibleToDownload InvalidParameters), demo_env\<lparr>BuildDir := []\<rparr>, demo_http,
        demo_relative)"
  by (simp add: Get_pkg_def Get_p0_def download_pkg_def download_p0_def demo_eval os_eval
      demo_http_def demo_downloaded_def demo_relative_def)

subsection \<open>C2\<close>

text \<open>
  C2, as the code has it. The package \<^verbatim>\<open>foo\<close> at \<^verbatim>\<open>file:///tmp/pkgs/foo-1.0.tar.gz\<close>, a
  regular file, with no \<^verbatim>\<open>Tarball\<close> yet and \<^verbatim>\<open>BuildDir\<close> \<^verbatim>\<open>/scratch/build\<close>. \<^verbatim>\<open>Get\<close> sets
  \<^verbatim>\<open>Tarball\<close> to \<^verbatim>\<open>foo-1.0.tar.gz\<close>, copies the file, and succeeds exactly when the copy
  does; \<^verbatim>\<open>SrcPath\<close> is then the copy and no other field of the environment changes
  (\<^verbatim>\<open>SrcDir\<close> is left alone). The copy is \<^verbatim>\<open>/scratch/build/foo/foo-1.0.tar.gz\<close> in
  \<^verbatim>\<open>part_000\<close>, where it has the content of the source, and
  \<^verbatim>\<open>/scratch/build/foo-1.0.tar.gz\<close> in \<^verbatim>\<open>pkg/buildenv/buildenv.go\<close>.
\<close>

theorem Get_local_file_scenario:
  assumes "Name p = ''foo''" and "URL p = ''file:///tmp/pkgs/foo-1.0.tar.gz''"
    and "Tarball p = []" and "BuildDir env = ''/scratch/build''"
    and "DetectURLType s (URL p) = Returns FileURL"
    and "stat (fs w) ''/tmp/pkgs/foo-1.0.tar.gz'' = Some (FileNode c)"
  shows "Get_p0 s env p w =
          (let r = CopyFile_fs s (fs w) ''/tmp/pkgs/foo-1.0.tar.gz'' ''/scratch/build/foo/foo-1.0.tar.gz''
           in (if fst r then Ok else Err (ImpossibleToCopy CannotCopyFile),
               if fst r then env\<lparr>SrcPath := ''/scratch/build/foo/foo-1.0.tar.gz''\<rparr> else env,
               p\<lparr>Tarball := ''foo-1.0.tar.gz''\<rparr>,
               \<lparr>fs = snd r,
                events = events w @
                  [EStat ''/tmp/pkgs/foo-1.0.tar.gz'',
                   ECopyFile ''/tmp/pkgs/foo-1.0.tar.gz'' ''/scratch/build/foo/foo-1.0.tar.gz'']\<rparr>))
    \<and> (fst (CopyFile_fs s (fs w) ''/tmp/pkgs/foo-1.0.tar.gz'' ''/scratch/build/foo/foo-1.0.tar.gz'') \<longrightarrow>
         stat (snd (CopyFile_fs s (fs w) ''/tmp/pkgs/foo-1.0.tar.gz'' ''/scratch/build/foo/foo-1.0.tar.gz''))
           ''/scratch/build/foo/foo-1.0.tar.gz'' = Some (FileNode c))
    \<and> Get_pkg s env p w =
          (let r = CopyFile_fs s (fs w) ''/tmp/pkgs/foo-1.0.tar.gz'' ''/scratch/build/foo-1.0.tar.gz''
           in (if fst r then Ok else Err (ImpossibleToCopy CannotCopyFile),
               if fst r then env\<lparr>SrcPath := ''/scratch/build/foo-1.0.tar.gz''\<rparr> else env,
               p\<lparr>Tarball := ''foo-1.0.tar.gz''\<rparr>,
               \<lparr>fs = snd r,
                events = events w @
                  [ECopyFile ''/tmp/pkgs/foo-1.0.tar.gz'' ''/scratch/build/foo-1.0.tar.gz'']\<rparr>))"
proof -
  have b: "Base ''file:///tmp/pkgs/foo-1.0.tar.gz'' = ''foo-1.0.tar.gz''"
    by (simp add: Base_def)
  have j3: "Join [''/scratch/build'', ''foo'', ''foo-1.0.tar.gz''] = ''/scratch/build/foo/foo-1.0.tar.gz''"
    by (simp add: Join_def Clean_def)
  have j2: "Join [''/scratch/build'', ''foo-1.0.tar.gz''] = ''/scratch/build/foo-1.0.tar.gz''"
    by (simp add: Join_def Clean_def)
  have p0: "Get_p0 s env p w =
          (let r = CopyFile_fs s (fs w) ''/tmp/pkgs/foo-1.0.tar.gz'' ''/scratch/build/foo/foo-1.0.tar.gz''
           in (if fst r then Ok else Err (ImpossibleToCopy CannotCopyFile),
               if fst r then env\<lparr>SrcPath := ''/scratch/build/foo/foo-1.0.tar.gz''\<rparr> else env,
               p\<lparr>Tarball := ''foo-1.0.tar.gz''\<rparr>,
               \<lparr>fs = snd r,
                events = events w @
                  [EStat ''/tmp/pkgs/foo-1.0.tar.gz'',
                   ECopyFile ''/tmp/pkgs/foo-1.0.tar.gz'' ''/scratch/build/foo/foo-1.0.tar.gz'']\<rparr>))"
    using assms
    by (simp add: Get_p0_def copyTarball_p0_def IsDir_def CopyFile_def log_def Let_def b j3)
  have pkg: "Get_pkg s env p w =
          (let r = CopyFile_fs s (fs w) ''/tmp/pkgs/foo-1.0.tar.gz'' ''/scratch/build/foo-1.0.tar.gz''
           in (if fst r then Ok else Err (ImpossibleToCopy CannotCopyFile),
               if fst r then env\<lparr>SrcPath := ''/scratch/build/foo-1.0.tar.gz''\<rparr> else env,
               p\<lparr>Tarball := ''foo-1.0.tar.gz''\<rparr>,
               \<lparr>fs = snd r,
                events = events w @
                  [ECopyFile ''/tmp/pkgs/foo-1.0.tar.gz'' ''/scratch/build/foo-1.0.tar.gz'']\<rparr>))"
    using assms
    by (simp add: Get_pkg_def copyTarball_pkg_def CopyFile_def log_def Let_def b j2)
  show ?thesis
    using p0 pkg stat_CopyFile_fs [OF assms(6)] by blast
qed

theorem Get_local_file_scenario_witness:
  "Name demo_pkg = ''foo'' \<and> URL demo_pkg = ''file:///tmp/pkgs/foo-1.0.tar.gz''
   \<and> Tarball demo_pkg = [] \<and> BuildDir demo_env = ''/scratch/build''
   \<and> DetectURLType demo_sys (URL demo_pkg) = Returns FileURL
   \<and> stat (fs demo_local) ''/tmp/pkgs/foo-1.0.tar.gz'' = Some (FileNode ''archive'')
   \<and> Get_p0 demo_sys demo_env demo_pkg demo_local =
       (Ok, demo_env\<lparr>SrcPath := ''/scratch/build/foo/foo-1.0.tar.gz''\<rparr>,
        demo_pkg\<lparr>Tarball := ''foo-1.0.tar.gz''\<rparr>,
        \<lparr>fs = (''/scratch/build/foo/foo-1.0.tar.gz'', FileNode ''archive'') # fs demo_local,
         events = [EStat ''/tmp/pkgs/foo-1.0.tar.gz'',
                   ECopyFile ''/tmp/pkgs/foo-1.0.tar.gz'' ''/scratch/build/foo/foo-1.0.tar.gz'']\<rparr>)
   \<and> Get_pkg demo_sys demo_env demo_pkg demo_local =
       (Ok, demo_env\<lparr>SrcPath := ''/scratch/build/foo-1.0.tar.gz''\<rparr>,
        demo_pkg\<lparr>Tarball := ''foo-1.0.tar.gz''\<rparr>,
        \<lparr>fs = (''/scratch/build/foo-1.0.tar.gz'', FileNode ''archive'') # fs demo_local,
         events = [ECopyFile ''/tmp/pkgs/foo-1.0.tar.gz'' ''/scratch/build/foo-1.0.tar.gz'']\<rparr>)"
proof -
  have h1: "Name demo_pkg = ''foo''" and h2: "URL demo_pkg = ''file:///tmp/pkgs/foo-1.0.tar.gz''"
    and h3: "Tarball demo_pkg = []" and h4: "BuildDir demo_env = ''/scratch/build''"
    by (simp_all add: demo_pkg_def demo_env_def)
  have h5: "DetectURLType demo_sys (URL demo_pkg) = Returns FileURL"
    by (simp add: demo_eval)
  have h6: "stat (fs demo_local) ''/tmp/pkgs/foo-1.0.tar.gz'' = Some (FileNode ''archive'')"
    by (simp add: demo_local_def stat_def Clean_def)
  have c1: "CopyFile_fs demo_sys (fs demo_local) ''/tmp/pkgs/foo-1.0.tar.gz''
      ''/scratch/build/foo/foo-1.0.tar.gz'' =
      (True, (''/scratch/build/foo/foo-1.0.tar.gz'', FileNode ''archive'') # fs demo_local)"
    by (simp add: CopyFile_fs_def demo_local_def demo_sys_def stat_def Clean_def Dir_def)
  have c2: "CopyFile_fs demo_sys (fs demo_local) ''/tmp/pkgs/foo-1.0.tar.gz''
      ''/scratch/build/foo-1.0.tar.gz'' =
      (True, (''/scratch/build/foo-1.0.tar.gz'', FileNode ''archive'') # fs demo_local)"
    by (simp add: CopyFile_fs_def demo_local_def demo_sys_def stat_def Clean_def Dir_def)
  have ev: "events demo_local = []" by (simp add: demo_local_def)
  from Get_local_file_scenario [OF h1 h2 h3 h4 h5 h6] h1 h2 h3 h4 h5 h6 show ?thesis
    by (simp add: c1 c2 ev Let_def)
qed

text \<open>On the sample system \<^verbatim>\<open>Get\<close> of \<^verbatim>\<open>pkg/buildenv/buildenv.go\<close> succeeds and
  \<^verbatim>\<open>SrcPath\<close> is not under the subdirectory \<^verbatim>\<open>foo\<close>.\<close>

theorem Get_local_file_scenario_counterexample:
  "Get_pkg demo_sys demo_env demo_pkg demo_local =
       (Ok, demo_env\<lparr>SrcPath := ''/scratch/build/foo-1.0.tar.gz''\<rparr>,
        demo_pkg\<lparr>Tarball := ''foo-1.0.tar.gz''\<rparr>,
        \<lparr>fs = (''/scratch/build/foo-1.0.tar.gz'', FileNode ''archive'') # fs demo_local,
         events = [ECopyFile ''/tmp/pkgs/foo-1.0.tar.gz'' ''/scratch/build/foo-1.0.tar.gz'']\<rparr>)
   \<and> SrcPath (demo_env\<lparr>SrcPath := ''/scratch/build/foo-1.0.tar.gz''\<rparr>)
       \<noteq> ''/scratch/build/foo/foo-1.0.tar.gz''"
  by (simp add: Get_pkg_def copyTarball_pkg_def demo_eval os_eval demo_local_def)

subsection \<open>C3\<close>

text \<open>
  C3, as the code has it. The package \<^verbatim>\<open>bar\<close> at \<^verbatim>\<open>https://example.com/org/bar.git\<close>, a
  URL of the git kind, \<^verbatim>\<open>BuildDir\<close> \<^verbatim>\<open>/scratch/build\<close>, and \<^verbatim>\<open>git\<close> found. In
  \<^verbatim>\<open>part_000\<close>, once \<^verbatim>\<open>/scratch/build/bar\<close> is there or has been made, \<^verbatim>\<open>Get\<close> runs one
  process: \<^verbatim>\<open>git clone\<close> of the URL in \<^verbatim>\<open>/scratch/build/bar\<close> when nothing is at
  \<^verbatim>\<open>/scratch/build/bar/bar\<close>, \<^verbatim>\<open>git pull\<close> in \<^verbatim>\<open>/scratch/build/bar/bar\<close> otherwise; when the
  directory cannot be made it runs nothing and returns the error; on success \<^verbatim>\<open>SrcPath\<close>
  and \<^verbatim>\<open>SrcDir\<close> are \<^verbatim>\<open>/scratch/build/bar/bar\<close>. In \<^verbatim>\<open>pkg/buildenv/buildenv.go\<close> the
  checkout is \<^verbatim>\<open>/scratch/build/bar\<close>: \<^verbatim>\<open>git clone\<close> in \<^verbatim>\<open>/scratch/build\<close> when nothing is
  there, \<^verbatim>\<open>git pull\<close> in it otherwise, and on success both fields are \<^verbatim>\<open>/scratch/build/bar\<close>.
\<close>

theorem Get_git_scenario:
  assumes "Name p = ''bar''" and "URL p = ''https://example.com/org/bar.git''"
    and "BuildDir env = ''/scratch/build''"
    and "DetectURLType s (URL p) = Returns GitURL"
    and "path_search s (fs w) ''git'' = Some gitBin"
  shows "(case Get_p0 s env p w of
            (r, env', p', w') \<Rightarrow>
              (if stat (fs w) ''/scratch/build/bar'' \<noteq> None
                  \<or> fst (Mkdir_fs s (fs w) ''/scratch/build/bar'')
               then runs w' = runs w @
                      [ExecCmd (if stat (fs w) ''/scratch/build/bar/bar'' = None
                                then (Command gitBin [''clone'', URL p])\<lparr>CmdDir := ''/scratch/build/bar''\<rparr>
                                else (Command gitBin [''pull''])\<lparr>CmdDir := ''/scratch/build/bar/bar''\<rparr>)]
               else r = Err (ImpossibleToGet OsError) \<and> runs w' = runs w)
              \<and> (r = Ok \<longrightarrow>
                   SrcPath env' = ''/scratch/build/bar/bar'' \<and> SrcDir env' = ''/scratch/build/bar/bar''))
    \<and> (case Get_pkg s env p w of
            (r, env', p', w') \<Rightarrow>
              runs w' = runs w @
                [ExecCmd (if stat (fs w) ''/scratch/build/bar'' = None
                          then (Command gitBin [''clone'', URL p])\<lparr>CmdDir := ''/scratch/build''\<rparr>
                          else (Command gitBin [''pull''])\<lparr>CmdDir := ''/scratch/build/bar''\<rparr>)]
              \<and> (r = Ok \<longrightarrow>
                   SrcPath env' = ''/scratch/build/bar'' \<and> SrcDir env' = ''/scratch/build/bar''))"
proof -
  have repo: "Replace (Base ''https://example.com/org/bar.git'') ''.git'' [] 1 = ''bar''"
    by (simp add: Base_def)
  have j1: "Join [''/scratch/build'', ''bar''] = ''/scratch/build/bar''"
    by (simp add: Join_def Clean_def)
  have j2: "Join [''/scratch/build/bar'', ''bar''] = ''/scratch/build/bar/bar''"
    by (simp add: Join_def Clean_def)
  have ne: "Clean ''/scratch/build/bar/bar'' \<noteq> Clean ''/scratch/build/bar''"
    by (simp add: Clean_def)
  define w1 where "w1 = log w (ELookPath ''git'')"
  define w2 where "w2 = snd (ensureMkdir s w1 ''/scratch/build/bar'')"
  have st: "stat (fs w2) ''/scratch/build/bar/bar'' = stat (fs w) ''/scratch/build/bar/bar''"
    unfolding w2_def using stat_ensureMkdir_other [OF ne, of s w1] by (simp add: w1_def)
  have rn: "runs w2 = runs w"
    unfolding w2_def by (simp add: runs_ensureMkdir) (simp add: w1_def runs_def)
  have made: "fst (ensureMkdir s w1 ''/scratch/build/bar'') =
      (stat (fs w) ''/scratch/build/bar'' \<noteq> None \<or> fst (Mkdir_fs s (fs w) ''/scratch/build/bar''))"
    by (simp add: fst_ensureMkdir w1_def)
  have p0: "(case Get_p0 s env p w of
            (r, env', p', w') \<Rightarrow>
              (if stat (fs w) ''/scratch/build/bar'' \<noteq> None
                  \<or> fst (Mkdir_fs s (fs w) ''/scratch/build/bar'')
               then runs w' = runs w @
                      [ExecCmd (if stat (fs w) ''/scratch/build/bar/bar'' = None
                                then (Command gitBin [''clone'', URL p])\<lparr>CmdDir := ''/scratch/build/bar''\<rparr>
                                else (Command gitBin [''pull''])\<lparr>CmdDir := ''/scratch/build/bar/bar''\<rparr>)]
               else r = Err (ImpossibleToGet OsError) \<and> runs w' = runs w)
              \<and> (r = Ok \<longrightarrow>
                   SrcPath env' = ''/scratch/build/bar/bar'' \<and> SrcDir env' = ''/scratch/build/bar/bar''))"
  proof (cases "fst (ensureMkdir s w1 ''/scratch/build/bar'')")
    case False
    then have e: "ensureMkdir s w1 ''/scratch/build/bar'' = (False, w2)"
      by (simp add: w2_def prod_eq_iff)
    show ?thesis
      using assms False e rn made
      by (simp add: Get_p0_def gitCheckout_p0_def LookPath_def repo j1 w1_def [symmetric])
  next
    case True
    then have e: "ensureMkdir s w1 ''/scratch/build/bar'' = (True, w2)"
      by (simp add: w2_def prod_eq_iff)
    show ?thesis
      using assms True e rn st made
      by (simp add: Get_p0_def gitCheckout_p0_def LookPath_def repo j1 j2 w1_def [symmetric]
          PathExists_def Run_def Let_def runs_def split: prod.splits)
  qed
  have pkg: "(case Get_pkg s env p w of
            (r, env', p', w') \<Rightarrow>
              runs w' = runs w @
                [ExecCmd (if stat (fs w) ''/scratch/build/bar'' = None
                          then (Command gitBin [''clone'', URL p])\<lparr>CmdDir := ''/scratch/build''\<rparr>
                          else (Command gitBin [''pull''])\<lparr>CmdDir := ''/scratch/build/bar''\<rparr>)]
              \<and> (r = Ok \<longrightarrow>
                   SrcPath env' = ''/scratch/build/bar'' \<and> SrcDir env' = ''/scratch/build/bar''))"
    using assms
    by (simp add: Get_pkg_def gitCheckout_pkg_def LookPath_def repo j1
        PathExists_def Run_def Let_def runs_def log_def split: prod.splits)
  from p0 pkg show ?thesis by (rule conjI)
qed

theorem Get_git_scenario_witness:
  "Name demo_git = ''bar'' \<and> URL demo_git = ''https://example.com/org/bar.git''
   \<and> BuildDir demo_env = ''/scratch/build''
   \<and> DetectURLType demo_sys (URL demo_git) = Returns GitURL
   \<and> path_search demo_sys (fs demo_fresh) ''git'' = Some ''/usr/bin/git''
   \<and> stat (fs demo_fresh) ''/scratch/build/bar/bar'' = None
   \<and> fst (Mkdir_fs demo_sys (fs demo_fresh) ''/scratch/build/bar'')
   \<and> Get_p0 demo_sys demo_env demo_git demo_fresh =
       (Ok, demo_env\<lparr>SrcPath := ''/scratch/build/bar/bar'', SrcDir := ''/scratch/build/bar/bar''\<rparr>,
        demo_git,
        \<lparr>fs = [(''/scratch/build/bar/bar'', DirNode), (''/scratch/build/bar'', DirNode),
               (''/scratch/build'', DirNode), (''/scratch'', DirNode)],
         events =
           [ELookPath ''git'', EStat ''/scratch/build/bar'', EMkdir ''/scratch/build/bar'',
            EStat ''/scratch/build/bar/bar'',
            ERun (ExecCmd \<lparr>Path = ''/usr/bin/git'',
                          Args = [''/usr/bin/git'', ''clone'', ''https://example.com/org/bar.git''],
                          CmdDir = ''/scratch/build/bar''\<rparr>)]\<rparr>)
   \<and> runs (snd (snd (snd (Get_p0 demo_sys demo_env demo_git demo_fresh)))) =
       [ExecCmd \<lparr>Path = ''/usr/bin/git'',
                 Args = [''/usr/bin/git'', ''clone'', ''https://example.com/org/bar.git''],
                 CmdDir = ''/scratch/build/bar''\<rparr>]
   \<and> runs (snd (snd (snd (Get_pkg demo_sys demo_env demo_git demo_fresh)))) =
       [ExecCmd \<lparr>Path = ''/usr/bin/git'',
                 Args = [''/usr/bin/git'', ''clone'', ''https://example.com/org/bar.git''],
                 CmdDir = ''/scratch/build''\<rparr>]
   \<and> fst (Get_pkg demo_sys demo_env demo_git demo_fresh) = Ok
   \<and> SrcPath (fst (snd (Get_pkg demo_sys demo_env demo_git demo_fresh))) = ''/scratch/build/bar''
   \<and> SrcDir (fst (snd (Get_pkg demo_sys demo_env demo_git demo_fresh))) = ''/scratch/build/bar''"
proof -
  have h1: "Name demo_git = ''bar''" and h2: "URL demo_git = ''https://example.com/org/bar.git''"
    and h3: "BuildDir demo_env = ''/scratch/build''"
    by (simp_all add: demo_git_def demo_env_def)
  have h4: "DetectURLType demo_sys (URL demo_git) = Returns GitURL"
    by (simp add: demo_eval demo_git_def)
  have h5: "path_search demo_sys (fs demo_fresh) ''git'' = Some ''/usr/bin/git''"
    by (simp add: demo_sys_def)
  have s0: "stat (fs demo_fresh) ''/scratch/build/bar/bar'' = None"
    and s1: "stat (fs demo_fresh) ''/scratch/build/bar'' = None"
    by (simp_all add: demo_fresh_def stat_def Clean_def)
  have mk: "fst (Mkdir_fs demo_sys (fs demo_fresh) ''/scratch/build/bar'')"
    by (simp add: demo_fresh_def demo_sys_def os_eval)
  have ev: "Get_p0 demo_sys demo_env demo_git demo_fresh =
       (Ok, demo_env\<lparr>SrcPath := ''/scratch/build/bar/bar'', SrcDir := ''/scratch/build/bar/bar''\<rparr>,
        demo_git,
        \<lparr>fs = [(''/scratch/build/bar/bar'', DirNode), (''/scratch/build/bar'', DirNode),
               (''/scratch/build'', DirNode), (''/scratch'', DirNode)],
         events =
           [ELookPath ''git'', EStat ''/scratch/build/bar'', EMkdir ''/scratch/build/bar'',
            EStat ''/scratch/build/bar/bar'',
            ERun (ExecCmd \<lparr>Path = ''/usr/bin/git'',
                          Args = [''/usr/bin/git'', ''clone'', ''https://example.com/org/bar.git''],
                          CmdDir = ''/scratch/build/bar''\<rparr>)]\<rparr>)"
    by (simp add: Get_p0_def gitCheckout_p0_def demo_eval os_eval demo_git_def demo_fresh_def)
  have r0: "runs demo_fresh = []" by (simp add: runs_def demo_fresh_def)
  from Get_git_scenario [OF h1 h2 h3 h4 h5] mk s0 s1 r0
  have "runs (snd (snd (snd (Get_p0 demo_sys demo_env demo_git demo_fresh)))) =
       [ExecCmd \<lparr>Path = ''/usr/bin/git'',
                 Args = [''/usr/bin/git'', ''clone'', ''https://example.com/org/bar.git''],
                 CmdDir = ''/scratch/build/bar''\<rparr>]"
    and "runs (snd (snd (snd (Get_pkg demo_sys demo_env demo_git demo_fresh)))) =
       [ExecCmd \<lparr>Path = ''/usr/bin/git'',
                 Args = [''/usr/bin/git'', ''clone'', ''https://example.com/org/bar.git''],
                 CmdDir = ''/scratch/build''\<rparr>]"
    by (simp_all add: h2 Command_def split: prod.splits)
  moreover have "fst (Get_pkg demo_sys demo_env demo_git demo_fresh) = Ok"
    and "SrcPath (fst (snd (Get_pkg demo_sys demo_env demo_git demo_fresh))) = ''/scratch/build/bar''"
    and "SrcDir (fst (snd (Get_pkg demo_sys demo_env demo_git demo_fresh))) = ''/scratch/build/bar''"
    by (simp_all add: Get_pkg_def gitCheckout_pkg_def demo_eval os_eval demo_git_def demo_fresh_def)
  ultimately show ?thesis using h1 h2 h3 h4 h5 s0 mk ev by simp
qed

text \<open>On the sample system, with nothing at \<^verbatim>\<open>/scratch/build/bar/bar\<close>, \<^verbatim>\<open>Get\<close> of
  \<^verbatim>\<open>pkg/buildenv/buildenv.go\<close> ends with both fields at \<^verbatim>\<open>/scratch/build/bar\<close>, and runs
  \<^verbatim>\<open>git pull\<close> when \<^verbatim>\<open>/scratch/build/bar\<close> is already there.\<close>

theorem Get_git_scenario_counterexample:
  "stat (fs demo_fresh) ''/scratch/build/bar/bar'' = None
   \<and> Get_pkg demo_sys demo_env demo_git demo_fresh =
       (Ok, demo_env\<lparr>SrcPath := ''/scratch/build/bar'', SrcDir := ''/scratch/build/bar''\<rparr>,
        demo_git,
        \<lparr>fs = [(''/scratch/build/bar'', DirNode), (''/scratch/build'', DirNode), (''/scratch'', DirNode)],
         events =
           [ELookPath ''git'', EStat ''/scratch/build/bar'',
            ERun (ExecCmd \<lparr>Path = ''/usr/bin/git'',
                          Args = [''/usr/bin/git'', ''clone'', ''https://example.com/org/bar.git''],
                          CmdDir = ''/scratch/build''\<rparr>)]\<rparr>)
   \<and> stat (fs demo_checkout) ''/scratch/build/bar/bar'' = None
   \<and> Get_pkg demo_sys demo_env demo_git demo_checkout =
       (Ok, demo_env\<lparr>SrcPath := ''/scratch/build/bar'', SrcDir := ''/scratch/build/bar''\<rparr>,
        demo_git,
        \<lparr>fs = fs demo_checkout,
         events =
           [ELookPath ''git'', EStat ''/scratch/build/bar'',
            ERun (ExecCmd \<lparr>Path = ''/usr/bin/git'', Args = [''/usr/bin/git'', ''pull''],
                          CmdDir = ''/scratch/build/bar''\<rparr>)]\<rparr>)"
  by (simp add: Get_pkg_def gitCheckout_pkg_def demo_eval os_eval demo_git_def demo_fresh_def
      demo_checkout_def)

subsection \<open>C4\<close>

text \<open>
  C4, where the code fails. \<^verbatim>\<open>Get\<close> tests only for the empty URL before it calls
  \<^verbatim>\<open>util.DetectURLType\<close>, which slices the first seven bytes of the URL. On
  \<^verbatim>\<open>ftp://host/file\<close> the classifier finds no kind and \<^verbatim>\<open>Get\<close> of either file returns the
  error of classification with everything as it was; on the URL \<^verbatim>\<open>ftp\<close>, which has no
  kind either, the slice is out of range and \<^verbatim>\<open>Get\<close> of either file panics.
\<close>

theorem Get_short_URL_panics:
  "Get_pkg demo_sys env (p\<lparr>URL := ''ftp://host/file''\<rparr>) w =
     (Err UndetectedType, env, p\<lparr>URL := ''ftp://host/file''\<rparr>, w)
   \<and> Get_p0 demo_sys env (p\<lparr>URL := ''ftp://host/file''\<rparr>) w =
     (Err UndetectedType, env, p\<lparr>URL := ''ftp://host/file''\<rparr>, w)
   \<and> Get_pkg demo_sys env (p\<lparr>URL := ''ftp''\<rparr>) w = (Panic, env, p\<lparr>URL := ''ftp''\<rparr>, w)
   \<and> Get_p0 demo_sys env (p\<lparr>URL := ''ftp''\<rparr>) w = (Panic, env, p\<lparr>URL := ''ftp''\<rparr>, w)"
  by (simp add: Get_pkg_def Get_p0_def demo_sys_def demo_DetectURLType_def)

subsection \<open>C5\<close>

text \<open>
  C5, as the code has it. With a non-empty \<^verbatim>\<open>BuildDir\<close> and \<^verbatim>\<open>SrcPath\<close> an existing
  directory, \<^verbatim>\<open>Unpack\<close> of either file succeeds after one probe of \<^verbatim>\<open>SrcPath\<close>: no
  process is run, the file system and every field are unchanged, and a second call does
  the same again.
\<close>

theorem Unpack_directory_noop:
  assumes "BuildDir env \<noteq> []" and "stat (fs w) (SrcPath env) = Some DirNode"
  shows "Unpack_pkg s env w = (Ok, env, w\<lparr>events := events w @ [EStat (SrcPath env)]\<rparr>)
    \<and> Unpack_p0 s env w = (Ok, env, w\<lparr>events := events w @ [EStat (SrcPath env)]\<rparr>)
    \<and> Unpack_pkg s env (w\<lparr>events := events w @ [EStat (SrcPath env)]\<rparr>) =
        (Ok, env, w\<lparr>events := events w @ [EStat (SrcPath env), EStat (SrcPath env)]\<rparr>)
    \<and> Unpack_p0 s env (w\<lparr>events := events w @ [EStat (SrcPath env)]\<rparr>) =
        (Ok, env, w\<lparr>events := events w @ [EStat (SrcPath env), EStat (SrcPath env)]\<rparr>)"
proof -
  from assms(2) have "SrcPath env \<noteq> []" by (auto simp: stat_def)
  with assms show ?thesis
    by (simp add: Unpack_pkg_def Unpack_p0_def IsDir_def log_def)
qed

theorem Unpack_directory_noop_witness:
  "BuildDir (demo_env\<lparr>SrcPath := ''/scratch/build/bar''\<rparr>) \<noteq> []
   \<and> stat (fs demo_checkout) (SrcPath (demo_env\<lparr>SrcPath := ''/scratch/build/bar''\<rparr>)) = Some DirNode
   \<and> Unpack_pkg demo_sys (demo_env\<lparr>SrcPath := ''/scratch/build/bar''\<rparr>) demo_checkout =
       (Ok, demo_env\<lparr>SrcPath := ''/scratch/build/bar''\<rparr>,
        demo_checkout\<lparr>events := [EStat ''/scratch/build/bar'']\<rparr>)
   \<and> Unpack_p0 demo_sys (demo_env\<lparr>SrcPath := ''/scratch/build/bar''\<rparr>) demo_checkout =
       (Ok, demo_env\<lparr>SrcPath := ''/scratch/build/bar''\<rparr>,
        demo_checkout\<lparr>events := [EStat ''/scratch/build/bar'']\<rparr>)"
proof -
  have b: "BuildDir (demo_env\<lparr>SrcPath := ''/scratch/build/bar''\<rparr>) \<noteq> []"
    by (simp add: demo_env_def)
  have d: "stat (fs demo_checkout) (SrcPath (demo_env\<lparr>SrcPath := ''/scratch/build/bar''\<rparr>)) = Some DirNode"
    by (simp add: demo_checkout_def stat_def Clean_def)
  from Unpack_directory_noop [OF b d, where s = demo_sys] b d show ?thesis
    by (simp add: demo_checkout_def)
qed

text \<open>With an empty \<^verbatim>\<open>BuildDir\<close> the first test of \<^verbatim>\<open>Unpack\<close> fails, in both files,
  although \<^verbatim>\<open>SrcPath\<close> is an existing directory.\<close>

theorem Unpack_directory_empty_BuildDir_counterexample:
  "stat (fs demo_checkout) (SrcPath (demo_env\<lparr>SrcPath := ''/scratch/build/bar'', BuildDir := []\<rparr>))
     = Some DirNode
   \<and> Unpack_pkg demo_sys (demo_env\<lparr>SrcPath := ''/scratch/build/bar'', BuildDir := []\<rparr>) demo_checkout =
       (Err InvalidParameters, demo_env\<lparr>SrcPath := ''/scratch/build/bar'', BuildDir := []\<rparr>, demo_checkout)
   \<and> Unpack_p0 demo_sys (demo_env\<lparr>SrcPath := ''/scratch/build/bar'', BuildDir := []\<rparr>) demo_checkout =
       (Err InvalidParameters, demo_env\<lparr>SrcPath := ''/scratch/build/bar'', BuildDir := []\<rparr>, demo_checkout)"
  by (simp add: Unpack_pkg_def Unpack_p0_def demo_checkout_def stat_def Clean_def)

subsection \<open>C6\<close>




subsection \<open>C7\<close>

text \<open>
  C7. After \<^verbatim>\<open>Init\<close> has succeeded the fields are the ones it was given and the three
  directories exist; a second \<^verbatim>\<open>Init\<close> succeeds, leaves the fields as they are and only
  probes the three paths: the file system is unchanged.
\<close>

theorem Init_idempotent:
  assumes "Init s env w = (Ok, env1, w1)"
  shows "env1 = env
    \<and> stat (fs w1) (ScratchDir env) \<noteq> None
    \<and> stat (fs w1) (BuildDir env) \<noteq> None
    \<and> stat (fs w1) (InstallDir env) \<noteq> None
    \<and> Init s env1 w1 =
        (Ok, env1,
         w1\<lparr>events := events w1 @
           [EStat (ScratchDir env), EStat (BuildDir env), EStat (InstallDir env)]\<rparr>)"
proof -
  obtain wa where a: "ensureMkdirAll s w (ScratchDir env) = (True, wa)"
    using assms by (cases "ensureMkdirAll s w (ScratchDir env)") (auto simp: Init_def split: if_splits)
  obtain wb where b: "ensureMkdirAll s wa (BuildDir env) = (True, wb)"
    using assms a by (cases "ensureMkdirAll s wa (BuildDir env)") (auto simp: Init_def split: if_splits)
  have c: "ensureMkdirAll s wb (InstallDir env) = (True, w1)" and e: "env1 = env"
    using assms a b by (cases "ensureMkdirAll s wb (InstallDir env)"; auto simp: Init_def split: if_splits)+
  have sa: "stat (fs wa) (ScratchDir env) \<noteq> None" by (rule ensureMkdirAll_made [OF a])
  have sb: "stat (fs wb) (BuildDir env) \<noteq> None" by (rule ensureMkdirAll_made [OF b])
  have s3: "stat (fs w1) (InstallDir env) \<noteq> None" by (rule ensureMkdirAll_made [OF c])
  have "stat (fs wb) (ScratchDir env) \<noteq> None"
    using ensureMkdirAll_keeps [OF sa, of s "BuildDir env"] b by simp
  then have s1: "stat (fs w1) (ScratchDir env) \<noteq> None"
    using ensureMkdirAll_keeps [of wb "ScratchDir env" s "InstallDir env"] c by simp
  have s2: "stat (fs w1) (BuildDir env) \<noteq> None"
    using ensureMkdirAll_keeps [OF sb, of s "InstallDir env"] c by simp
  have "Init s env w1 =
        (Ok, env, log (log (log w1 (EStat (ScratchDir env))) (EStat (BuildDir env)))
           (EStat (InstallDir env)))"
    using s1 s2 s3 by (simp add: Init_def ensureMkdirAll_there)
  then show ?thesis
    using e s1 s2 s3 by (simp add: log_def)
qed

theorem Init_idempotent_witness:
  "Init demo_sys demo_env \<lparr>fs = [], events = []\<rparr> =
     (Ok, demo_env,
      \<lparr>fs = [(''/scratch/install'', DirNode), (''/scratch/build'', DirNode), (''/scratch'', DirNode)],
       events = [EStat ''/scratch'', EMkdirAll ''/scratch'',
                 EStat ''/scratch/build'', EMkdirAll ''/scratch/build'',
                 EStat ''/scratch/install'', EMkdirAll ''/scratch/install'']\<rparr>)
   \<and> Init demo_sys demo_env
       \<lparr>fs = [(''/scratch/install'', DirNode), (''/scratch/build'', DirNode), (''/scratch'', DirNode)],
        events = [EStat ''/scratch'', EMkdirAll ''/scratch'',
                  EStat ''/scratch/build'', EMkdirAll ''/scratch/build'',
                  EStat ''/scratch/install'', EMkdirAll ''/scratch/install'']\<rparr> =
     (Ok, demo_env,
      \<lparr>fs = [(''/scratch/install'', DirNode), (''/scratch/build'', DirNode), (''/scratch'', DirNode)],
       events = [EStat ''/scratch'', EMkdirAll ''/scratch'',
                 EStat ''/scratch/build'', EMkdirAll ''/scratch/build'',
                 EStat ''/scratch/install'', EMkdirAll ''/scratch/install'',
                 EStat ''/scratch'', EStat ''/scratch/build'', EStat ''/scratch/install'']\<rparr>)"
proof -
  have first: "Init demo_sys demo_env \<lparr>fs = [], events = []\<rparr> =
     (Ok, demo_env,
      \<lparr>fs = [(''/scratch/install'', DirNode), (''/scratch/build'', DirNode), (''/scratch'', DirNode)],
       events = [EStat ''/scratch'', EMkdirAll ''/scratch'',
                 EStat ''/scratch/build'', EMkdirAll ''/scratch/build'',
                 EStat ''/scratch/install'', EMkdirAll ''/scratch/install'']\<rparr>)"
    by (simp add: Init_def ensureMkdirAll_def PathExists_def MkdirAll_def MkdirAll_fs.simps
        Mkdir_fs_def stat_def Clean_def Dir_def log_def demo_env_def demo_sys_def Let_def)
  from Init_idempotent [OF first] first show ?thesis
    by (simp add: demo_env_def)
qed

subsection \<open>C8\<close>

text \<open>
  C8, where the code fails. \<^verbatim>\<open>IsInstalled\<close> calls \<^verbatim>\<open>util.DetectURLType\<close> without the test
  for the empty URL that \<^verbatim>\<open>Get\<close> makes: on the empty URL, and on \<^verbatim>\<open>ftp\<close>, the slice of the
  classifier is out of range and \<^verbatim>\<open>IsInstalled\<close> panics. It panics too when
  \<^verbatim>\<open>util.FileExists\<close> probes a path below a regular file, here with \<^verbatim>\<open>BuildDir\<close> set to
  the archive. On \<^verbatim>\<open>ftp://host/file\<close> it answers no without a probe. The fields and the
  file system are untouched in each case.
\<close>

theorem IsInstalled_panics:
  "IsInstalled demo_sys env (p\<lparr>URL := []\<rparr>) w = (Panics, env, p\<lparr>URL := []\<rparr>, w)
   \<and> IsInstalled demo_sys env (p\<lparr>URL := ''ftp''\<rparr>) w = (Panics, env, p\<lparr>URL := ''ftp''\<rparr>, w)
   \<and> IsInstalled demo_sys env (p\<lparr>URL := ''ftp://host/file''\<rparr>) w =
       (Returns False, env, p\<lparr>URL := ''ftp://host/file''\<rparr>, w)
   \<and> stat (fs demo_archive) ''/scratch/build/foo-1.0.tar.gz'' = Some (FileNode ''archive'')
   \<and> IsInstalled demo_sys (demo_env\<lparr>BuildDir := ''/scratch/build/foo-1.0.tar.gz''\<rparr>) demo_http
         demo_archive =
       (Panics, demo_env\<lparr>BuildDir := ''/scratch/build/foo-1.0.tar.gz''\<rparr>, demo_http,
        demo_archive\<lparr>events := [EStat ''/scratch/build/foo-1.0.tar.gz/foo-1.0.tar.gz'']\<rparr>)
   \<and> IsInstalled demo_sys demo_env demo_http demo_archive =
       (Returns True, demo_env, demo_http,
        demo_archive\<lparr>events := [EStat ''/scratch/build/foo-1.0.tar.gz'']\<rparr>)"
  by (simp add: IsInstalled_def demo_eval os_eval demo_http_def demo_archive_def)

subsection \<open>C9\<close>

text \<open>
  C9. With an empty install command \<^verbatim>\<open>Install\<close> succeeds and the environment, the
  descriptor and the world are the ones it was given: no process is run.
\<close>

theorem Install_empty_command:
  "InstallCmd p = [] \<Longrightarrow> Install s env p w = (Ok, env, p, w)"
  by (simp add: Install_def)

theorem Install_empty_command_witness:
  "InstallCmd demo_pkg = []
   \<and> Install demo_sys demo_env demo_pkg \<lparr>fs = [], events = []\<rparr> =
       (Ok, demo_env, demo_pkg, \<lparr>fs = [], events = []\<rparr>)"
  using Install_empty_command [of demo_pkg demo_sys demo_env "\<lparr>fs = [], events = []\<rparr>"]
  by (simp add: demo_pkg_def)

subsection \<open>C10\<close>

text \<open>
  C10, where the code fails. An entry \<^verbatim>\<open>PATH\<close> without \<^verbatim>\<open>=\<close> at the head of \<^verbatim>\<open>Env\<close> splits
  into one piece; \<^verbatim>\<open>lookPath\<close> reads the second and panics, and \<^verbatim>\<open>Install\<close> with it.
\<close>

theorem lookPath_bare_PATH_panics:
  "lookPath (env\<lparr>Env := ''PATH'' # rest\<rparr>) w bin = (Panics, w)
   \<and> Install s (env\<lparr>Env := ''PATH'' # rest\<rparr>) (p\<lparr>InstallCmd := ''make install''\<rparr>) w =
       (Panic, env\<lparr>Env := ''PATH'' # rest\<rparr>, p\<lparr>InstallCmd := ''make install''\<rparr>, w)"
  by (simp add: lookPath_def Install_def)

end
